theory Spec2Isabelle
  imports Main "HOL-Library.Word"
begin

unbundle bit_operations_syntax

section \<open>Default address-space handlers of uACPI (default_handlers.c)\<close>

text \<open>
  The embedding follows the 64-bit build (\<^verbatim>\<open>UACPI_POINTER_SIZE 8\<close> of
  \<^verbatim>\<open>uacpi/platform/compiler.h\<close>): pointers, \<^verbatim>\<open>uacpi_size\<close>,
  \<^verbatim>\<open>uacpi_phys_addr\<close>, \<^verbatim>\<open>uacpi_io_addr\<close> and
  \<^verbatim>\<open>uacpi_handle\<close> are 64-bit words, the null pointer is the word 0, and
  pointer arithmetic is word arithmetic.
\<close>

type_synonym u8 = "8 word"
type_synonym u16 = "16 word"
type_synonym u32 = "32 word"
type_synonym u64 = "64 word"

subsection \<open>Status codes, operations, objects, namespace nodes\<close>

text \<open>
  The handlers name five status codes; every other code a platform routine may return
  is \<open>UACPI_STATUS_OTHER n\<close>.
\<close>

datatype uacpi_status =
    UACPI_STATUS_OK
  | UACPI_STATUS_MAPPING_FAILED
  | UACPI_STATUS_OUT_OF_MEMORY
  | UACPI_STATUS_INVALID_ARGUMENT
  | UACPI_STATUS_NOT_FOUND
  | UACPI_STATUS_OTHER nat

text \<open>
  \<^verbatim>\<open>uacpi_region_op\<close> is a C enumeration: besides its four enumerators a variable of
  the type can hold any other integer, \<open>UACPI_REGION_OP_OTHER n\<close> here.
\<close>

datatype uacpi_region_op =
    UACPI_REGION_OP_ATTACH
  | UACPI_REGION_OP_READ
  | UACPI_REGION_OP_WRITE
  | UACPI_REGION_OP_DETACH
  | UACPI_REGION_OP_OTHER nat

datatype uacpi_object_type =
    UACPI_OBJECT_DEVICE
  | UACPI_OBJECT_INTEGER
  | UACPI_OBJECT_OPERATION_REGION
  | UACPI_OBJECT_TYPE_OTHER nat

record uacpi_operation_region =
  opr_offset :: u64
  opr_length :: u64

text \<open>
  Of an object the handlers read the members \<^verbatim>\<open>type\<close>, \<^verbatim>\<open>integer\<close> and
  \<^verbatim>\<open>op_region\<close> (the latter through the pointer stored in the object). Each member is
  a field of its own here, so nothing is assumed about how the object overlays them.
\<close>

record uacpi_object =
  obj_type :: uacpi_object_type
  integer :: u64
  op_region :: uacpi_operation_region

text \<open>
  A namespace node holds its name, the object \<^verbatim>\<open>uacpi_namespace_node_get_object\<close>
  returns for it (\<open>None\<close> is the null pointer) and the link to its parent. The
  namespace is a tree: the chain of parent links is finite and ends at the namespace
  root, the one node without a parent, which is what \<^verbatim>\<open>uacpi_namespace_root()\<close>
  returns.
\<close>

datatype uacpi_namespace_node =
  Node (name: string) (object: "uacpi_object option") (parent: "uacpi_namespace_node option")

subsection \<open>Region contexts and the data of each operation\<close>

record uacpi_pci_address =
  segment :: u16
  bus :: u8
  device :: u8
  function_f :: u8

record pci_region_ctx =
  address :: uacpi_pci_address

record memory_region_ctx =
  phys :: u64
  virt :: u64
  size_f :: u64

record io_region_ctx =
  base :: u64
  handle :: u64

datatype region_ctx =
    Pci_ctx pci_region_ctx
  | Memory_ctx memory_region_ctx
  | Io_ctx io_region_ctx

record uacpi_region_attach_data =
  region_node :: uacpi_namespace_node
  out_region_context :: u64

record uacpi_region_detach_data =
  detach_region_context :: u64

text \<open>
  The declaration of \<^verbatim>\<open>uacpi_region_rw_data\<close> is not part of the sources at hand.
  Modelled from the spec: the structure of a read or write, which the data model of the
  specification gives as a region context, an absolute \<^verbatim>\<open>address\<close>, an
  \<^verbatim>\<open>offset\<close> within the region, a \<^verbatim>\<open>byte_width\<close> and a value (in for a write,
  the out slot of a read). The two members \<^verbatim>\<open>address\<close> and \<^verbatim>\<open>offset\<close> are fields
  of their own here, so nothing is assumed about how the structure lays them out. The
  handlers read \<^verbatim>\<open>offset\<close> as a position in the address space:
  \<^verbatim>\<open>io_region_do_rw\<close> subtracts from it the base of the region, itself a position
  in the I/O space, and \<^verbatim>\<open>pci_region_do_rw\<close> hands it to the platform as it is.
  The data of an access at the absolute address \<open>A\<close> hold \<open>A\<close> in both members.
\<close>

record uacpi_region_rw_data =
  rw_region_context :: u64
  rw_address :: u64
  rw_offset :: u64
  rw_value :: u64
  rw_byte_width :: u8

datatype op_data =
    Attach_data uacpi_region_attach_data
  | Detach_data uacpi_region_detach_data
  | Rw_data uacpi_region_rw_data

subsection \<open>The platform and the interpreter\<close>

text \<open>
  Every call of a kernel routine that acts on a resource is recorded, in order, with
  its arguments. A volatile load or store of the mapped memory is recorded with its
  pointer, its width in bytes and, for a store, the value of that width.
\<close>

datatype kernel_call =
    K_alloc u64
  | K_calloc u64
  | K_free u64
  | K_map u64 u64
  | K_unmap u64 u64
  | K_io_map u64 u64
  | K_io_unmap u64
  | K_io_read u64 u64 u8
  | K_io_write u64 u64 u8 u64
  | K_pci_read uacpi_pci_address u64 u8
  | K_pci_write uacpi_pci_address u64 u8 u64
  | K_load u64 nat
  | K_store u64 nat u64
  | K_trace string
  | K_trace_region_error "uacpi_namespace_node option" string uacpi_status

text \<open>
  The state: the live region contexts by address (the store the handlers allocate
  from and free into), the bytes of memory by address, and the calls made so far.
\<close>

record kstate =
  heap :: "u64 \<rightharpoonup> region_ctx"
  mem :: "u64 \<Rightarrow> u8"
  calls :: "kernel_call list"

text \<open>
  The routines the handlers call and whose code lies outside this file are parameters:
  what the platform returns for an allocation, a mapping or a port or configuration
  access, and what the interpreter returns for the evaluation of a method on a node.
  \<open>uacpi_eval_typed\<close> stands for the call with no arguments and the type mask
  \<^verbatim>\<open>UACPI_OBJECT_INTEGER_BIT\<close>, the only way the handlers call it. A read routine
  gets the current content of the out slot and returns the new one.
\<close>

record env =
  uacpi_kernel_alloc :: "kstate \<Rightarrow> u64"
  uacpi_kernel_calloc :: "kstate \<Rightarrow> u64"
  uacpi_kernel_map :: "u64 \<Rightarrow> u64 \<Rightarrow> u64"
  uacpi_kernel_io_map :: "u64 \<Rightarrow> u64 \<Rightarrow> uacpi_status \<times> u64"
  uacpi_kernel_io_read :: "u64 \<Rightarrow> u64 \<Rightarrow> u8 \<Rightarrow> u64 \<Rightarrow> uacpi_status \<times> u64"
  uacpi_kernel_io_write :: "u64 \<Rightarrow> u64 \<Rightarrow> u8 \<Rightarrow> u64 \<Rightarrow> uacpi_status"
  uacpi_kernel_pci_read :: "uacpi_pci_address \<Rightarrow> u64 \<Rightarrow> u8 \<Rightarrow> u64 \<Rightarrow> uacpi_status \<times> u64"
  uacpi_kernel_pci_write :: "uacpi_pci_address \<Rightarrow> u64 \<Rightarrow> u8 \<Rightarrow> u64 \<Rightarrow> uacpi_status"
  uacpi_eval_hid :: "uacpi_namespace_node \<Rightarrow> uacpi_status \<times> string"
  uacpi_eval_cid :: "uacpi_namespace_node \<Rightarrow> uacpi_status \<times> string list"
  uacpi_is_pci_root_bridge :: "string \<Rightarrow> bool"
  uacpi_eval_typed :: "uacpi_namespace_node \<Rightarrow> string \<Rightarrow> uacpi_status \<times> uacpi_object"

definition log_call :: "kernel_call \<Rightarrow> kstate \<Rightarrow> kstate" where
  "log_call c s = s\<lparr>calls := calls s @ [c]\<rparr>"

subsection \<open>Volatile accesses to mapped memory\<close>

text \<open>
  Memory is byte addressed and little endian, as on the x86 targets the compiler
  header knows. A load of \<open>n\<close> bytes at \<open>p\<close> reads the bytes at \<open>p\<close>, \<open>p + 1\<close>,
  ... and a store writes them, lowest byte first.
\<close>

fun load_bytes :: "(u64 \<Rightarrow> u8) \<Rightarrow> u64 \<Rightarrow> nat \<Rightarrow> u8 list" where
  "load_bytes m p 0 = []"
| "load_bytes m p (Suc n) = m p # load_bytes m (p + 1) n"

fun store_bytes :: "(u64 \<Rightarrow> u8) \<Rightarrow> u64 \<Rightarrow> u8 list \<Rightarrow> (u64 \<Rightarrow> u8)" where
  "store_bytes m p [] = m"
| "store_bytes m p (b # bs) = store_bytes (m(p := b)) (p + 1) bs"

text \<open>
  The value of a sequence of bytes, lowest byte first, and the \<open>n\<close> low bytes of a
  value.
\<close>

fun word_of_bytes :: "u8 list \<Rightarrow> u64" where
  "word_of_bytes [] = 0"
| "word_of_bytes (b # bs) = ucast b OR push_bit 8 (word_of_bytes bs)"

fun bytes_of :: "nat \<Rightarrow> u64 \<Rightarrow> u8 list" where
  "bytes_of 0 v = []"
| "bytes_of (Suc n) v = ucast v # bytes_of n (drop_bit 8 v)"

definition load_u8 :: "(u64 \<Rightarrow> u8) \<Rightarrow> u64 \<Rightarrow> u8" where
  "load_u8 m p = ucast (word_of_bytes (load_bytes m p 1))"

definition load_u16 :: "(u64 \<Rightarrow> u8) \<Rightarrow> u64 \<Rightarrow> u16" where
  "load_u16 m p = ucast (word_of_bytes (load_bytes m p 2))"

definition load_u32 :: "(u64 \<Rightarrow> u8) \<Rightarrow> u64 \<Rightarrow> u32" where
  "load_u32 m p = ucast (word_of_bytes (load_bytes m p 4))"

definition load_u64 :: "(u64 \<Rightarrow> u8) \<Rightarrow> u64 \<Rightarrow> u64" where
  "load_u64 m p = word_of_bytes (load_bytes m p 8)"

definition store_u8 :: "(u64 \<Rightarrow> u8) \<Rightarrow> u64 \<Rightarrow> u8 \<Rightarrow> (u64 \<Rightarrow> u8)" where
  "store_u8 m p v = store_bytes m p (bytes_of 1 (ucast v))"

definition store_u16 :: "(u64 \<Rightarrow> u8) \<Rightarrow> u64 \<Rightarrow> u16 \<Rightarrow> (u64 \<Rightarrow> u8)" where
  "store_u16 m p v = store_bytes m p (bytes_of 2 (ucast v))"

definition store_u32 :: "(u64 \<Rightarrow> u8) \<Rightarrow> u64 \<Rightarrow> u32 \<Rightarrow> (u64 \<Rightarrow> u8)" where
  "store_u32 m p v = store_bytes m p (bytes_of 4 (ucast v))"

definition store_u64 :: "(u64 \<Rightarrow> u8) \<Rightarrow> u64 \<Rightarrow> u64 \<Rightarrow> (u64 \<Rightarrow> u8)" where
  "store_u64 m p v = store_bytes m p (bytes_of 8 v)"

text \<open>
  \<^verbatim>\<open>memory_read(ptr, width, out)\<close>: the result is the status, the content of
  \<^verbatim>\<open>*out\<close> afterwards (the argument \<open>out\<close> is its content before) and the state.
  The value loaded has the width of the access and is converted to 64 bits on the
  assignment to \<^verbatim>\<open>*out\<close>.
\<close>

definition memory_read :: "u64 \<Rightarrow> u8 \<Rightarrow> u64 \<Rightarrow> kstate \<Rightarrow> uacpi_status \<times> u64 \<times> kstate" where
  "memory_read ptr width out s =
     (if width = 1 then
        (UACPI_STATUS_OK, ucast (load_u8 (mem s) ptr), log_call (K_load ptr 1) s)
      else if width = 2 then
        (UACPI_STATUS_OK, ucast (load_u16 (mem s) ptr), log_call (K_load ptr 2) s)
      else if width = 4 then
        (UACPI_STATUS_OK, ucast (load_u32 (mem s) ptr), log_call (K_load ptr 4) s)
      else if width = 8 then
        (UACPI_STATUS_OK, load_u64 (mem s) ptr, log_call (K_load ptr 8) s)
      else (UACPI_STATUS_INVALID_ARGUMENT, out, s))"

text \<open>
  \<^verbatim>\<open>memory_write(ptr, width, in)\<close>: the assignment converts the 64-bit \<^verbatim>\<open>in\<close> to
  the width of the access, and that value is stored.
\<close>

definition memory_write :: "u64 \<Rightarrow> u8 \<Rightarrow> u64 \<Rightarrow> kstate \<Rightarrow> uacpi_status \<times> kstate" where
  "memory_write ptr width inp s =
     (if width = 1 then
        (UACPI_STATUS_OK,
         log_call (K_store ptr 1 (ucast (ucast inp :: u8))) (s\<lparr>mem := store_u8 (mem s) ptr (ucast inp)\<rparr>))
      else if width = 2 then
        (UACPI_STATUS_OK,
         log_call (K_store ptr 2 (ucast (ucast inp :: u16))) (s\<lparr>mem := store_u16 (mem s) ptr (ucast inp)\<rparr>))
      else if width = 4 then
        (UACPI_STATUS_OK,
         log_call (K_store ptr 4 (ucast (ucast inp :: u32))) (s\<lparr>mem := store_u32 (mem s) ptr (ucast inp)\<rparr>))
      else if width = 8 then
        (UACPI_STATUS_OK,
         log_call (K_store ptr 8 inp) (s\<lparr>mem := store_u64 (mem s) ptr inp\<rparr>))
      else (UACPI_STATUS_INVALID_ARGUMENT, s))"

subsection \<open>Results, allocation and release\<close>

text \<open>
  A handler returns \<open>Some\<close> of its status, the operation's data as it leaves them and
  the new state. \<open>None\<close> stands for the runs in which the C code reads through a null
  pointer or through a pointer that is not a live context of the expected kind, where
  the language gives it no behaviour.
\<close>

definition kernel_free :: "u64 \<Rightarrow> kstate \<Rightarrow> kstate" where
  "kernel_free p s = log_call (K_free p) (s\<lparr>heap := (heap s)(p := None)\<rparr>)"

definition store_ctx :: "u64 \<Rightarrow> region_ctx \<Rightarrow> kstate \<Rightarrow> kstate" where
  "store_ctx p c s = s\<lparr>heap := (heap s)(p \<mapsto> c)\<rparr>"

subsection \<open>The PCI configuration space handler\<close>

text \<open>
  \<^verbatim>\<open>is_node_pci_root\<close>: the loop over the entries of the \<^verbatim>\<open>_CID\<close> list, then the
  function. The identifier and the list obtained are released on every path before the
  function returns; they are no region contexts and the release is not recorded.
\<close>

fun id_list_has_root :: "env \<Rightarrow> string list \<Rightarrow> bool" where
  "id_list_has_root E [] = False"
| "id_list_has_root E (i # ids) =
     (if uacpi_is_pci_root_bridge E i then True else id_list_has_root E ids)"

definition is_node_pci_root :: "env \<Rightarrow> uacpi_namespace_node \<Rightarrow> bool" where
  "is_node_pci_root E node =
     (case uacpi_eval_hid E node of (st, hid) \<Rightarrow>
        if st = UACPI_STATUS_OK \<and> uacpi_is_pci_root_bridge E hid then True
        else (case uacpi_eval_cid E node of (st', id_list) \<Rightarrow>
                if st' = UACPI_STATUS_OK then id_list_has_root E id_list else False))"

text \<open>
  \<^verbatim>\<open>find_pci_root\<close>: the loop runs on \<^verbatim>\<open>parent\<close> while it is not the namespace
  root, that is, while it has a parent of its own. A region node without a parent makes
  the loop read through the null pointer.
\<close>

fun find_pci_root_loop ::
  "env \<Rightarrow> uacpi_namespace_node \<Rightarrow> uacpi_namespace_node \<Rightarrow> kstate \<Rightarrow> uacpi_namespace_node \<times> kstate" where
  "find_pci_root_loop E node (Node n ob None) s =
     (node, log_call (K_trace_region_error (Some node) ''unable to find PCI root controlling''
                        UACPI_STATUS_NOT_FOUND) s)"
| "find_pci_root_loop E node (Node n ob (Some gp)) s =
     (if is_node_pci_root E (Node n ob (Some gp))
      then (Node n ob (Some gp), log_call (K_trace ''found a PCI root node'') s)
      else find_pci_root_loop E node gp s)"

definition find_pci_root ::
  "env \<Rightarrow> uacpi_namespace_node \<Rightarrow> kstate \<Rightarrow> (uacpi_namespace_node \<times> kstate) option" where
  "find_pci_root E node s =
     (case parent node of
        None \<Rightarrow> None
      | Some p \<Rightarrow> Some (find_pci_root_loop E node p s))"

text \<open>
  The loop of \<^verbatim>\<open>pci_region_attach\<close> that looks for the device controlling the region:
  it starts at the region node itself and ends at the first node whose object is a
  device, or at the null pointer above the namespace root.
\<close>

definition is_device :: "uacpi_namespace_node \<Rightarrow> bool" where
  "is_device node =
     (case object node of None \<Rightarrow> False | Some ob \<Rightarrow> obj_type ob = UACPI_OBJECT_DEVICE)"

fun find_device :: "uacpi_namespace_node option \<Rightarrow> uacpi_namespace_node option" where
  "find_device None = None"
| "find_device (Some (Node n ob par)) =
     (if is_device (Node n ob par) then Some (Node n ob par) else find_device par)"

definition zero_pci_address :: uacpi_pci_address where
  "zero_pci_address = \<lparr>segment = 0, bus = 0, device = 0, function_f = 0\<rparr>"

definition set_adr :: "uacpi_status \<times> uacpi_object \<Rightarrow> uacpi_pci_address \<Rightarrow> uacpi_pci_address" where
  "set_adr r a =
     (case r of (ret, obj) \<Rightarrow>
        if ret = UACPI_STATUS_OK
        then a\<lparr>function_f := ucast (drop_bit 0 (integer obj) AND 0xFF),
               device := ucast (drop_bit 16 (integer obj) AND 0xFF)\<rparr>
        else a)"

definition set_seg :: "uacpi_status \<times> uacpi_object \<Rightarrow> uacpi_pci_address \<Rightarrow> uacpi_pci_address" where
  "set_seg r a =
     (case r of (ret, obj) \<Rightarrow>
        if ret = UACPI_STATUS_OK then a\<lparr>segment := ucast (integer obj)\<rparr> else a)"

definition set_bbn :: "uacpi_status \<times> uacpi_object \<Rightarrow> uacpi_pci_address \<Rightarrow> uacpi_pci_address" where
  "set_bbn r a =
     (case r of (ret, obj) \<Rightarrow>
        if ret = UACPI_STATUS_OK then a\<lparr>bus := ucast (integer obj)\<rparr> else a)"

text \<open>
  \<^verbatim>\<open>pci_region_attach\<close>. The context comes zeroed from \<^verbatim>\<open>uacpi_kernel_calloc\<close>; the
  three evaluations fill it in the order of the source (\<open>set_adr\<close>, \<open>set_seg\<close>,
  \<open>set_bbn\<close> are the three conditional assignments).
\<close>

definition pci_region_attach ::
  "env \<Rightarrow> uacpi_region_attach_data \<Rightarrow> kstate \<Rightarrow>
   (uacpi_status \<times> uacpi_region_attach_data \<times> kstate) option" where
  "pci_region_attach E data s =
     (let ctx = uacpi_kernel_calloc E s;
          s0 = log_call (K_calloc ctx) s
      in if ctx = 0 then Some (UACPI_STATUS_OUT_OF_MEMORY, data, s0)
      else
        let node = region_node data;
            s1 = store_ctx ctx (Pci_ctx \<lparr>address = zero_pci_address\<rparr>) s0
        in case object node of
             None \<Rightarrow> None
           | Some region_obj \<Rightarrow>
        (case find_pci_root E node s1 of
           None \<Rightarrow> None
         | Some (pci_root, s2) \<Rightarrow>
        (case find_device (Some node) of
           None \<Rightarrow>
             Some (UACPI_STATUS_NOT_FOUND, data,
                   kernel_free ctx
                     (log_call (K_trace_region_error None ''unable to find device responsible for''
                                  UACPI_STATUS_NOT_FOUND) s2))
         | Some dev \<Rightarrow>
             let a1 = set_adr (uacpi_eval_typed E dev ''_ADR'') zero_pci_address;
                 a2 = set_seg (uacpi_eval_typed E pci_root ''_SEG'') a1;
                 a3 = set_bbn (uacpi_eval_typed E pci_root ''_BBN'') a2;
                 s3 = log_call (K_trace ''detected PCI device'')
                        (store_ctx ctx (Pci_ctx \<lparr>address = a3\<rparr>) s2)
             in Some (UACPI_STATUS_OK, data\<lparr>out_region_context := ctx\<rparr>, s3))))"

definition pci_region_detach ::
  "uacpi_region_detach_data \<Rightarrow> kstate \<Rightarrow> (uacpi_status \<times> uacpi_region_detach_data \<times> kstate) option" where
  "pci_region_detach data s =
     (let ctx = detach_region_context data
      in Some (UACPI_STATUS_OK, data, kernel_free ctx s))"

definition pci_region_do_rw ::
  "env \<Rightarrow> uacpi_region_op \<Rightarrow> uacpi_region_rw_data \<Rightarrow> kstate \<Rightarrow>
   (uacpi_status \<times> uacpi_region_rw_data \<times> kstate) option" where
  "pci_region_do_rw E op data s =
     (case heap s (rw_region_context data) of
        Some (Pci_ctx ctx) \<Rightarrow>
          let offset = rw_offset data;
              width = rw_byte_width data
          in if op = UACPI_REGION_OP_READ
             then (case uacpi_kernel_pci_read E (address ctx) offset width (rw_value data) of
                     (ret, v) \<Rightarrow>
                       Some (ret, data\<lparr>rw_value := v\<rparr>,
                             log_call (K_pci_read (address ctx) offset width) s))
             else Some (uacpi_kernel_pci_write E (address ctx) offset width (rw_value data), data,
                        log_call (K_pci_write (address ctx) offset width (rw_value data)) s)
      | _ \<Rightarrow> None)"

text \<open>
  The handlers get the operation's data through an untyped pointer and read them as
  the structure the operation code calls for; data of another shape are read through a
  wrongly typed pointer (\<open>None\<close>).
\<close>

definition attach_result ::
  "(uacpi_status \<times> uacpi_region_attach_data \<times> kstate) option \<Rightarrow>
   (uacpi_status \<times> op_data \<times> kstate) option" where
  "attach_result r = map_option (\<lambda>(st, d, s). (st, Attach_data d, s)) r"

definition detach_result ::
  "(uacpi_status \<times> uacpi_region_detach_data \<times> kstate) option \<Rightarrow>
   (uacpi_status \<times> op_data \<times> kstate) option" where
  "detach_result r = map_option (\<lambda>(st, d, s). (st, Detach_data d, s)) r"

definition rw_result ::
  "(uacpi_status \<times> uacpi_region_rw_data \<times> kstate) option \<Rightarrow>
   (uacpi_status \<times> op_data \<times> kstate) option" where
  "rw_result r = map_option (\<lambda>(st, d, s). (st, Rw_data d, s)) r"

definition handle_pci_region ::
  "env \<Rightarrow> uacpi_region_op \<Rightarrow> op_data \<Rightarrow> kstate \<Rightarrow> (uacpi_status \<times> op_data \<times> kstate) option" where
  "handle_pci_region E op op_data s =
     (case op of
        UACPI_REGION_OP_ATTACH \<Rightarrow>
          (case op_data of Attach_data d \<Rightarrow> attach_result (pci_region_attach E d s) | _ \<Rightarrow> None)
      | UACPI_REGION_OP_DETACH \<Rightarrow>
          (case op_data of Detach_data d \<Rightarrow> detach_result (pci_region_detach d s) | _ \<Rightarrow> None)
      | UACPI_REGION_OP_READ \<Rightarrow>
          (case op_data of Rw_data d \<Rightarrow> rw_result (pci_region_do_rw E op d s) | _ \<Rightarrow> None)
      | UACPI_REGION_OP_WRITE \<Rightarrow>
          (case op_data of Rw_data d \<Rightarrow> rw_result (pci_region_do_rw E op d s) | _ \<Rightarrow> None)
      | UACPI_REGION_OP_OTHER n \<Rightarrow> Some (UACPI_STATUS_INVALID_ARGUMENT, op_data, s))"

subsection \<open>The system memory handler\<close>

definition memory_region_attach ::
  "env \<Rightarrow> uacpi_region_attach_data \<Rightarrow> kstate \<Rightarrow>
   (uacpi_status \<times> uacpi_region_attach_data \<times> kstate) option" where
  "memory_region_attach E data s =
     (let ctx = uacpi_kernel_alloc E s;
          s0 = log_call (K_alloc ctx) s
      in if ctx = 0 then Some (UACPI_STATUS_OUT_OF_MEMORY, data, s0)
      else
        case object (region_node data) of
          None \<Rightarrow> None
        | Some region_obj \<Rightarrow>
            let opr = op_region region_obj;
                sz = opr_length opr;
                ph = opr_offset opr;
                vt = uacpi_kernel_map E ph sz;
                s1 = log_call (K_map ph sz)
                       (store_ctx ctx (Memory_ctx \<lparr>phys = ph, virt = vt, size_f = sz\<rparr>) s0)
            in if vt = 0
               then Some (UACPI_STATUS_MAPPING_FAILED, data,
                          kernel_free ctx
                            (log_call (K_trace_region_error (Some (region_node data)) ''unable to map''
                                         UACPI_STATUS_MAPPING_FAILED) s1))
               else Some (UACPI_STATUS_OK, data\<lparr>out_region_context := ctx\<rparr>, s1))"

definition memory_region_detach ::
  "uacpi_region_detach_data \<Rightarrow> kstate \<Rightarrow> (uacpi_status \<times> uacpi_region_detach_data \<times> kstate) option" where
  "memory_region_detach data s =
     (case heap s (detach_region_context data) of
        Some (Memory_ctx ctx) \<Rightarrow>
          Some (UACPI_STATUS_OK, data,
                kernel_free (detach_region_context data)
                  (log_call (K_unmap (virt ctx) (size_f ctx)) s))
      | _ \<Rightarrow> None)"

definition memory_region_do_rw ::
  "uacpi_region_op \<Rightarrow> uacpi_region_rw_data \<Rightarrow> kstate \<Rightarrow>
   (uacpi_status \<times> uacpi_region_rw_data \<times> kstate) option" where
  "memory_region_do_rw op data s =
     (case heap s (rw_region_context data) of
        Some (Memory_ctx ctx) \<Rightarrow>
          let ptr = virt ctx + (rw_address data - phys ctx)
          in if op = UACPI_REGION_OP_READ
             then (case memory_read ptr (rw_byte_width data) (rw_value data) s of
                     (ret, v, s') \<Rightarrow> Some (ret, data\<lparr>rw_value := v\<rparr>, s'))
             else (case memory_write ptr (rw_byte_width data) (rw_value data) s of
                     (ret, s') \<Rightarrow> Some (ret, data, s'))
      | _ \<Rightarrow> None)"

definition handle_memory_region ::
  "env \<Rightarrow> uacpi_region_op \<Rightarrow> op_data \<Rightarrow> kstate \<Rightarrow> (uacpi_status \<times> op_data \<times> kstate) option" where
  "handle_memory_region E op op_data s =
     (case op of
        UACPI_REGION_OP_ATTACH \<Rightarrow>
          (case op_data of Attach_data d \<Rightarrow> attach_result (memory_region_attach E d s) | _ \<Rightarrow> None)
      | UACPI_REGION_OP_DETACH \<Rightarrow>
          (case op_data of Detach_data d \<Rightarrow> detach_result (memory_region_detach d s) | _ \<Rightarrow> None)
      | UACPI_REGION_OP_READ \<Rightarrow>
          (case op_data of Rw_data d \<Rightarrow> rw_result (memory_region_do_rw op d s) | _ \<Rightarrow> None)
      | UACPI_REGION_OP_WRITE \<Rightarrow>
          (case op_data of Rw_data d \<Rightarrow> rw_result (memory_region_do_rw op d s) | _ \<Rightarrow> None)
      | UACPI_REGION_OP_OTHER n \<Rightarrow> Some (UACPI_STATUS_INVALID_ARGUMENT, op_data, s))"

subsection \<open>The system I/O handler\<close>

text \<open>
  \<^verbatim>\<open>uacpi_unlikely_error(ret)\<close> is read as \<^verbatim>\<open>ret != UACPI_STATUS_OK\<close>.
\<close>

definition io_region_attach ::
  "env \<Rightarrow> uacpi_region_attach_data \<Rightarrow> kstate \<Rightarrow>
   (uacpi_status \<times> uacpi_region_attach_data \<times> kstate) option" where
  "io_region_attach E data s =
     (let ctx = uacpi_kernel_alloc E s;
          s0 = log_call (K_alloc ctx) s
      in if ctx = 0 then Some (UACPI_STATUS_OUT_OF_MEMORY, data, s0)
      else
        case object (region_node data) of
          None \<Rightarrow> None
        | Some region_obj \<Rightarrow>
            let opr = op_region region_obj;
                b = opr_offset opr
            in case uacpi_kernel_io_map E b (opr_length opr) of
                 (ret, h) \<Rightarrow>
                   let s1 = log_call (K_io_map b (opr_length opr))
                              (store_ctx ctx (Io_ctx \<lparr>base = b, handle = h\<rparr>) s0)
                   in if ret \<noteq> UACPI_STATUS_OK
                      then Some (ret, data,
                                 kernel_free ctx
                                   (log_call (K_trace_region_error (Some (region_node data))
                                                ''unable to map an IO'' ret) s1))
                      else Some (ret, data\<lparr>out_region_context := ctx\<rparr>, s1))"

definition io_region_detach ::
  "uacpi_region_detach_data \<Rightarrow> kstate \<Rightarrow> (uacpi_status \<times> uacpi_region_detach_data \<times> kstate) option" where
  "io_region_detach data s =
     (case heap s (detach_region_context data) of
        Some (Io_ctx ctx) \<Rightarrow>
          Some (UACPI_STATUS_OK, data,
                kernel_free (detach_region_context data)
                  (log_call (K_io_unmap (handle ctx)) s))
      | _ \<Rightarrow> None)"

definition io_region_do_rw ::
  "env \<Rightarrow> uacpi_region_op \<Rightarrow> uacpi_region_rw_data \<Rightarrow> kstate \<Rightarrow>
   (uacpi_status \<times> uacpi_region_rw_data \<times> kstate) option" where
  "io_region_do_rw E op data s =
     (case heap s (rw_region_context data) of
        Some (Io_ctx ctx) \<Rightarrow>
          let offset = rw_offset data - base ctx;
              width = rw_byte_width data
          in if op = UACPI_REGION_OP_READ
             then (case uacpi_kernel_io_read E (handle ctx) offset width (rw_value data) of
                     (ret, v) \<Rightarrow>
                       Some (ret, data\<lparr>rw_value := v\<rparr>,
                             log_call (K_io_read (handle ctx) offset width) s))
             else Some (uacpi_kernel_io_write E (handle ctx) offset width (rw_value data), data,
                        log_call (K_io_write (handle ctx) offset width (rw_value data)) s)
      | _ \<Rightarrow> None)"

definition handle_io_region ::
  "env \<Rightarrow> uacpi_region_op \<Rightarrow> op_data \<Rightarrow> kstate \<Rightarrow> (uacpi_status \<times> op_data \<times> kstate) option" where
  "handle_io_region E op op_data s =
     (case op of
        UACPI_REGION_OP_ATTACH \<Rightarrow>
          (case op_data of Attach_data d \<Rightarrow> attach_result (io_region_attach E d s) | _ \<Rightarrow> None)
      | UACPI_REGION_OP_DETACH \<Rightarrow>
          (case op_data of Detach_data d \<Rightarrow> detach_result (io_region_detach d s) | _ \<Rightarrow> None)
      | UACPI_REGION_OP_READ \<Rightarrow>
          (case op_data of Rw_data d \<Rightarrow> rw_result (io_region_do_rw E op d s) | _ \<Rightarrow> None)
      | UACPI_REGION_OP_WRITE \<Rightarrow>
          (case op_data of Rw_data d \<Rightarrow> rw_result (io_region_do_rw E op d s) | _ \<Rightarrow> None)
      | UACPI_REGION_OP_OTHER n \<Rightarrow> Some (UACPI_STATUS_INVALID_ARGUMENT, op_data, s))"

subsection \<open>A concrete platform and namespace\<close>

text \<open>
  The namespace \<^verbatim>\<open>\_SB.PCI0.DEV0.REG\<close> of the specification's PCI scenario:
  \<^verbatim>\<open>PCI0\<close> has the \<^verbatim>\<open>_HID\<close> of a PCI root bridge, \<^verbatim>\<open>_SEG\<close> 1 and \<^verbatim>\<open>_BBN\<close> 0x40,
  \<^verbatim>\<open>DEV0\<close> has \<^verbatim>\<open>_ADR\<close> 0x001F0003, and the region starts at 0x10000 and is 0x100
  bytes long. The platform allocates at 0x1000 and 0x2000, maps at 0x7000 and hands
  out the port handle 7.
\<close>

definition ex_object :: "uacpi_object_type \<Rightarrow> u64 \<Rightarrow> uacpi_object" where
  "ex_object ty v = \<lparr>obj_type = ty, integer = v, op_region = \<lparr>opr_offset = 0x10000, opr_length = 0x100\<rparr>\<rparr>"

definition ex_root :: uacpi_namespace_node where
  "ex_root = Node ''ROOT'' None None"

definition ex_sb :: uacpi_namespace_node where
  "ex_sb = Node ''_SB_'' (Some (ex_object UACPI_OBJECT_DEVICE 0)) (Some ex_root)"

definition ex_pci0 :: uacpi_namespace_node where
  "ex_pci0 = Node ''PCI0'' (Some (ex_object UACPI_OBJECT_DEVICE 0)) (Some ex_sb)"

definition ex_dev0 :: uacpi_namespace_node where
  "ex_dev0 = Node ''DEV0'' (Some (ex_object UACPI_OBJECT_DEVICE 0)) (Some ex_pci0)"

definition ex_reg :: uacpi_namespace_node where
  "ex_reg = Node ''REG_'' (Some (ex_object UACPI_OBJECT_OPERATION_REGION 0)) (Some ex_dev0)"

definition ex_eval_typed :: "uacpi_namespace_node \<Rightarrow> string \<Rightarrow> uacpi_status \<times> uacpi_object" where
  "ex_eval_typed n m =
     (if name n = ''PCI0'' \<and> m = ''_SEG'' then (UACPI_STATUS_OK, ex_object UACPI_OBJECT_INTEGER 1)
      else if name n = ''PCI0'' \<and> m = ''_BBN'' then (UACPI_STATUS_OK, ex_object UACPI_OBJECT_INTEGER 0x40)
      else if name n = ''DEV0'' \<and> m = ''_ADR'' then (UACPI_STATUS_OK, ex_object UACPI_OBJECT_INTEGER 0x001F0003)
      else (UACPI_STATUS_NOT_FOUND, ex_object UACPI_OBJECT_INTEGER 0))"

definition ex_env :: env where
  "ex_env =
     \<lparr>uacpi_kernel_alloc = (\<lambda>s. 0x1000),
      uacpi_kernel_calloc = (\<lambda>s. 0x2000),
      uacpi_kernel_map = (\<lambda>p sz. 0x7000),
      uacpi_kernel_io_map = (\<lambda>b l. (UACPI_STATUS_OK, 7)),
      uacpi_kernel_io_read = (\<lambda>h off w old. (UACPI_STATUS_OK, 0)),
      uacpi_kernel_io_write = (\<lambda>h off w v. UACPI_STATUS_OK),
      uacpi_kernel_pci_read = (\<lambda>a off w old. (UACPI_STATUS_OK, 0)),
      uacpi_kernel_pci_write = (\<lambda>a off w v. UACPI_STATUS_OK),
      uacpi_eval_hid =
        (\<lambda>n. if name n = ''PCI0'' then (UACPI_STATUS_OK, ''PNP0A08'') else (UACPI_STATUS_NOT_FOUND, [])),
      uacpi_eval_cid = (\<lambda>n. (UACPI_STATUS_NOT_FOUND, [])),
      uacpi_is_pci_root_bridge = (\<lambda>i. i = ''PNP0A03'' \<or> i = ''PNP0A08''),
      uacpi_eval_typed = ex_eval_typed\<rparr>"

definition ex_state :: kstate where
  "ex_state = \<lparr>heap = Map.empty, mem = (\<lambda>a. 0), calls = []\<rparr>"

subsection \<open>Notions used in the statements\<close>

text \<open>
  The nodes the loop of \<^verbatim>\<open>find_pci_root\<close> examines when it starts at \<open>p\<close>: \<open>p\<close> and
  its ancestors, nearest first, without the namespace root. \<open>pci_root_of\<close> is the first
  of them that is a PCI root bridge, or the region node when there is none.
\<close>

fun ancestors_below_root :: "uacpi_namespace_node \<Rightarrow> uacpi_namespace_node list" where
  "ancestors_below_root (Node n ob None) = []"
| "ancestors_below_root (Node n ob (Some gp)) = Node n ob (Some gp) # ancestors_below_root gp"

definition pci_root_of :: "env \<Rightarrow> uacpi_namespace_node \<Rightarrow> uacpi_namespace_node" where
  "pci_root_of E node =
     (case parent node of
        None \<Rightarrow> node
      | Some p \<Rightarrow>
          (case find (is_node_pci_root E) (ancestors_below_root p) of
             None \<Rightarrow> node
           | Some r \<Rightarrow> r))"

text \<open>
  The address that the three evaluations of \<^verbatim>\<open>pci_region_attach\<close> leave in a zeroed
  context, for the root and the device the attach has found.
\<close>

definition resolved_address ::
  "env \<Rightarrow> uacpi_namespace_node \<Rightarrow> uacpi_namespace_node \<Rightarrow> uacpi_pci_address" where
  "resolved_address E pci_root dev =
     set_bbn (uacpi_eval_typed E pci_root ''_BBN'')
       (set_seg (uacpi_eval_typed E pci_root ''_SEG'')
          (set_adr (uacpi_eval_typed E dev ''_ADR'') zero_pci_address))"

text \<open>A region directly below a namespace root that is no device.\<close>

definition ex_reg_no_device :: uacpi_namespace_node where
  "ex_reg_no_device = Node ''REG_'' (Some (ex_object UACPI_OBJECT_OPERATION_REGION 0)) (Some ex_root)"

section \<open>Properties\<close>

subsection \<open>Bytes in memory\<close>

lemma word_of_bytes_of: "word_of_bytes (bytes_of n v) = take_bit (8 * n) v"
proof (induction n arbitrary: v)
  case 0
  show ?case by simp
next
  case (Suc n)
  show ?case
    apply (simp add: Suc)
    apply (rule bit_word_eqI)
    apply (auto simp add: bit_simps)
    done
qed

lemma store_bytes_other:
  "(\<And>i. i < length bs \<Longrightarrow> q \<noteq> p + of_nat i) \<Longrightarrow> store_bytes m p bs q = m q"
proof (induction bs arbitrary: m p)
  case Nil
  show ?case by simp
next
  case (Cons b bs)
  have "q \<noteq> p" using Cons.prems [of 0] by simp
  moreover have "store_bytes (m(p := b)) (p + 1) bs q = (m(p := b)) q"
  proof (rule Cons.IH)
    fix i assume "i < length bs"
    then show "q \<noteq> p + 1 + of_nat i" using Cons.prems [of "Suc i"] by (simp add: add.assoc)
  qed
  ultimately show ?case by simp
qed

lemma load_store_bytes:
  "length bs < 2 ^ 64 \<Longrightarrow> load_bytes (store_bytes m p bs) p (length bs) = bs"
proof (induction bs arbitrary: m p)
  case Nil
  show ?case by simp
next
  case (Cons b bs)
  have "store_bytes (m(p := b)) (p + 1) bs p = (m(p := b)) p"
  proof (rule store_bytes_other)
    fix i assume i: "i < length bs"
    have "Suc i < 2 ^ 64" using i Cons.prems by simp
    then have "(of_nat (Suc i) :: u64) \<noteq> 0"
      by (intro of_nat_neq_0) simp_all
    then show "p \<noteq> p + 1 + of_nat i" by (simp add: add.assoc)
  qed
  moreover have "load_bytes (store_bytes (m(p := b)) (p + 1) bs) (p + 1) (length bs) = bs"
    using Cons.prems by (intro Cons.IH) simp
  ultimately show ?case by simp
qed

lemma length_bytes_of: "length (bytes_of n v) = n"
  by (induction n arbitrary: v) simp_all

lemma load_after_store:
  "n < 2 ^ 64 \<Longrightarrow> word_of_bytes (load_bytes (store_bytes m p (bytes_of n v)) p n) = take_bit (8 * n) v"
  using load_store_bytes [of "bytes_of n v" m p]
  by (simp add: length_bytes_of word_of_bytes_of)

lemma ucast_down_up_u8: "(ucast (ucast (v :: u64) :: u8) :: u64) = take_bit 8 v"
  by (rule bit_word_eqI) (auto simp add: bit_simps)

lemma ucast_down_up_u16: "(ucast (ucast (v :: u64) :: u16) :: u64) = take_bit 16 v"
  by (rule bit_word_eqI) (auto simp add: bit_simps)

lemma ucast_down_up_u32: "(ucast (ucast (v :: u64) :: u32) :: u64) = take_bit 32 v"
  by (rule bit_word_eqI) (auto simp add: bit_simps)

lemma unat_take_bit_mod: "unat (take_bit n (v :: u64)) = unat v mod 2 ^ n"
  unfolding unsigned_take_bit_eq by (simp add: take_bit_eq_mod)

lemma take_bit_unat_mod: "word_of_nat (unat v mod 2 ^ n) = take_bit n (v :: u64)"
proof -
  have "word_of_nat (unat (take_bit n v)) = take_bit n v" by simp
  then show ?thesis by (simp only: unat_take_bit_mod)
qed

lemma memory_write_1:
  "memory_write ptr 1 v s =
     (UACPI_STATUS_OK, log_call (K_store ptr 1 (take_bit 8 v)) (s\<lparr>mem := store_bytes (mem s) ptr (bytes_of 1 (take_bit 8 v))\<rparr>))"
  by (simp add: memory_write_def store_u8_def ucast_down_up_u8)

lemma memory_write_2:
  "memory_write ptr 2 v s =
     (UACPI_STATUS_OK, log_call (K_store ptr 2 (take_bit 16 v)) (s\<lparr>mem := store_bytes (mem s) ptr (bytes_of 2 (take_bit 16 v))\<rparr>))"
  by (simp add: memory_write_def store_u16_def ucast_down_up_u16)

lemma memory_write_4:
  "memory_write ptr 4 v s =
     (UACPI_STATUS_OK, log_call (K_store ptr 4 (take_bit 32 v)) (s\<lparr>mem := store_bytes (mem s) ptr (bytes_of 4 (take_bit 32 v))\<rparr>))"
  by (simp add: memory_write_def store_u32_def ucast_down_up_u32)

lemma memory_read_1:
  "memory_read ptr 1 out s =
     (UACPI_STATUS_OK, take_bit 8 (word_of_bytes (load_bytes (mem s) ptr 1)), log_call (K_load ptr 1) s)"
  by (simp add: memory_read_def load_u8_def ucast_down_up_u8)

lemma memory_read_2:
  "memory_read ptr 2 out s =
     (UACPI_STATUS_OK, take_bit 16 (word_of_bytes (load_bytes (mem s) ptr 2)), log_call (K_load ptr 2) s)"
  by (simp add: memory_read_def load_u16_def ucast_down_up_u16)

lemma memory_read_4:
  "memory_read ptr 4 out s =
     (UACPI_STATUS_OK, take_bit 32 (word_of_bytes (load_bytes (mem s) ptr 4)), log_call (K_load ptr 4) s)"
  by (simp add: memory_read_def load_u32_def ucast_down_up_u32)

subsection \<open>Access widths\<close>

text \<open>
  C4. For every byte width other than 1, 2, 4 and 8 the memory read and the memory
  write return the invalid-argument status; the state is then the one before the call
  (no load or store is recorded, no byte of memory changes) and the out slot of the
  read keeps its content. For the widths 1, 2, 4 and 8 both return success.
\<close>

theorem memory_access_width_check:
  "(width \<notin> {1, 2, 4, 8} \<longrightarrow>
      memory_read ptr width out s = (UACPI_STATUS_INVALID_ARGUMENT, out, s) \<and>
      memory_write ptr width v s = (UACPI_STATUS_INVALID_ARGUMENT, s)) \<and>
   (width \<in> {1, 2, 4, 8} \<longrightarrow>
      fst (memory_read ptr width out s) = UACPI_STATUS_OK \<and>
      fst (memory_write ptr width v s) = UACPI_STATUS_OK)"
  by (auto simp add: memory_read_def memory_write_def)

theorem memory_access_width_check_witness:
  "memory_read 0x7000 3 0x55 ex_state = (UACPI_STATUS_INVALID_ARGUMENT, 0x55, ex_state) \<and>
   memory_write 0x7000 3 0xAA ex_state = (UACPI_STATUS_INVALID_ARGUMENT, ex_state) \<and>
   fst (memory_read 0x7000 8 0x55 ex_state) = UACPI_STATUS_OK \<and>
   fst (memory_write 0x7000 8 0xAA ex_state) = UACPI_STATUS_OK"
  using memory_access_width_check [of 3 "0x7000" "0x55" ex_state "0xAA"]
    memory_access_width_check [of 8 "0x7000" "0x55" ex_state "0xAA"]
  by simp

text \<open>
  C9. A memory write of the value \<open>v\<close> with a width \<open>w\<close> of 1, 2 or 4 bytes stores
  \<open>v\<close> modulo \<open>2 ^ (8 * w)\<close>; a memory read of such a width yields a value below
  \<open>2 ^ (8 * w)\<close>; and a read after the write, at the same pointer and width, yields
  \<open>v\<close> modulo \<open>2 ^ (8 * w)\<close>.
\<close>

theorem memory_write_truncates:
  assumes "width \<in> {1, 2, 4}"
  shows "fst (memory_write ptr width v s) = UACPI_STATUS_OK
       \<and> calls (snd (memory_write ptr width v s)) =
           calls s @ [K_store ptr (unat width) (word_of_nat (unat v mod 2 ^ (8 * unat width)))]
       \<and> unat (fst (snd (memory_read ptr width out t))) < 2 ^ (8 * unat width)
       \<and> fst (memory_read ptr width out (snd (memory_write ptr width v s))) = UACPI_STATUS_OK
       \<and> unat (fst (snd (memory_read ptr width out (snd (memory_write ptr width v s))))) =
           unat v mod 2 ^ (8 * unat width)"
proof -
  consider "width = 1" | "width = 2" | "width = 4" using assms by auto
  then show ?thesis
  proof cases
    case 1
    have "word_of_bytes (load_bytes (store_bytes (mem s) ptr (bytes_of 1 (take_bit 8 v))) ptr 1) = take_bit 8 v"
      using load_after_store [of 1 "mem s" ptr "take_bit 8 v"] by simp
    then show ?thesis
      unfolding 1 memory_write_1 memory_read_1
      by (simp add: log_call_def unat_take_bit_mod take_bit_unat_mod [where n = 8, simplified])
  next
    case 2
    have "word_of_bytes (load_bytes (store_bytes (mem s) ptr (bytes_of 2 (take_bit 16 v))) ptr 2) = take_bit 16 v"
      using load_after_store [of 2 "mem s" ptr "take_bit 16 v"] by simp
    then show ?thesis
      unfolding 2 memory_write_2 memory_read_2
      by (simp add: log_call_def unat_take_bit_mod take_bit_unat_mod [where n = 16, simplified])
  next
    case 3
    have "word_of_bytes (load_bytes (store_bytes (mem s) ptr (bytes_of 4 (take_bit 32 v))) ptr 4) = take_bit 32 v"
      using load_after_store [of 4 "mem s" ptr "take_bit 32 v"] by simp
    then show ?thesis
      unfolding 3 memory_write_4 memory_read_4
      by (simp add: log_call_def unat_take_bit_mod take_bit_unat_mod [where n = 32, simplified])
  qed
qed

theorem memory_write_truncates_witness:
  "(4 :: u8) \<in> {1, 2, 4} \<and>
   calls (snd (memory_write 0x7000 4 0x1DEADBEEF ex_state)) = [K_store 0x7000 4 0xDEADBEEF] \<and>
   unat (fst (snd (memory_read 0x7000 4 0 ex_state))) < 2 ^ 32 \<and>
   unat (fst (snd (memory_read 0x7000 4 0 (snd (memory_write 0x7000 4 0x1DEADBEEF ex_state))))) = 0xDEADBEEF"
  using memory_write_truncates [of 4 "0x7000" "0x1DEADBEEF" ex_state 0 ex_state]
  by (simp add: ex_state_def)

subsection \<open>Address translation\<close>

lemma take_bit_64: "take_bit 64 (v :: u64) = v"
  by (simp add: take_bit_word_eq_self)

lemma memory_write_8:
  "memory_write ptr 8 v s =
     (UACPI_STATUS_OK, log_call (K_store ptr 8 (take_bit 64 v)) (s\<lparr>mem := store_bytes (mem s) ptr (bytes_of 8 (take_bit 64 v))\<rparr>))"
  by (simp add: memory_write_def store_u64_def take_bit_64)

lemma memory_read_8:
  "memory_read ptr 8 out s =
     (UACPI_STATUS_OK, take_bit 64 (word_of_bytes (load_bytes (mem s) ptr 8)), log_call (K_load ptr 8) s)"
  by (simp add: memory_read_def load_u64_def take_bit_64)

lemma memory_read_valid:
  assumes "width \<in> {1, 2, 4, 8}"
  shows "memory_read ptr width out s =
           (UACPI_STATUS_OK,
            take_bit (8 * unat width) (word_of_bytes (load_bytes (mem s) ptr (unat width))),
            log_call (K_load ptr (unat width)) s)"
proof -
  consider "width = 1" | "width = 2" | "width = 4" | "width = 8" using assms by auto
  then show ?thesis
    by cases (simp_all add: memory_read_1 memory_read_2 memory_read_4 memory_read_8)
qed

lemma memory_write_valid:
  assumes "width \<in> {1, 2, 4, 8}"
  shows "memory_write ptr width v s =
           (UACPI_STATUS_OK,
            log_call (K_store ptr (unat width) (take_bit (8 * unat width) v))
              (s\<lparr>mem := store_bytes (mem s) ptr (bytes_of (unat width) (take_bit (8 * unat width) v))\<rparr>))"
proof -
  consider "width = 1" | "width = 2" | "width = 4" | "width = 8" using assms by auto
  then show ?thesis
    by cases (simp_all add: memory_write_1 memory_write_2 memory_write_4 memory_write_8)
qed

text \<open>
  C2. A read or write of the memory handler on a region whose context holds \<open>phys\<close>
  and \<open>virt\<close> accesses the pointer \<open>virt + (address - phys)\<close>, where \<open>address\<close> is
  the absolute address of the operation's data: for each of the widths 1, 2, 4 and 8 the
  load or the store is made at that pointer. The field \<open>offset\<close> of the data has no
  part in it: with any other offset the handler does the same and returns the same.
\<close>

theorem memory_region_do_rw_pointer:
  assumes "heap s (rw_region_context data) = Some (Memory_ctx ctx)"
  shows "(let ptr = virt ctx + (rw_address data - phys ctx);
              width = rw_byte_width data
          in (width \<in> {1, 2, 4, 8} \<longrightarrow>
                memory_region_do_rw UACPI_REGION_OP_READ data s =
                  Some (UACPI_STATUS_OK,
                        data\<lparr>rw_value := take_bit (8 * unat width)
                                             (word_of_bytes (load_bytes (mem s) ptr (unat width)))\<rparr>,
                        log_call (K_load ptr (unat width)) s) \<and>
                memory_region_do_rw UACPI_REGION_OP_WRITE data s =
                  Some (UACPI_STATUS_OK, data,
                        log_call (K_store ptr (unat width) (take_bit (8 * unat width) (rw_value data)))
                          (s\<lparr>mem := store_bytes (mem s) ptr
                                       (bytes_of (unat width) (take_bit (8 * unat width) (rw_value data)))\<rparr>))) \<and>
             memory_region_do_rw op (data\<lparr>rw_offset := off\<rparr>) s =
               map_option (\<lambda>(st, d, s'). (st, d\<lparr>rw_offset := off\<rparr>, s')) (memory_region_do_rw op data s))"
proof -
  have "memory_region_do_rw op (data\<lparr>rw_offset := off\<rparr>) s =
          map_option (\<lambda>(st, d, s'). (st, d\<lparr>rw_offset := off\<rparr>, s')) (memory_region_do_rw op data s)"
    using assms by (simp add: memory_region_do_rw_def Let_def split: prod.splits)
  then show ?thesis
    using assms
    by (simp add: memory_region_do_rw_def Let_def memory_read_valid memory_write_valid)
qed

theorem memory_region_do_rw_pointer_witness:
  "memory_region_do_rw UACPI_REGION_OP_WRITE
     \<lparr>rw_region_context = 0x1000, rw_address = 0x10010, rw_offset = 0x99, rw_value = 0xDEADBEEF, rw_byte_width = 4\<rparr>
     (store_ctx 0x1000 (Memory_ctx \<lparr>phys = 0x10000, virt = 0x7000, size_f = 0x100\<rparr>) ex_state)
   = Some (UACPI_STATUS_OK,
       \<lparr>rw_region_context = 0x1000, rw_address = 0x10010, rw_offset = 0x99, rw_value = 0xDEADBEEF, rw_byte_width = 4\<rparr>,
       log_call (K_store 0x7010 4 0xDEADBEEF)
         ((store_ctx 0x1000 (Memory_ctx \<lparr>phys = 0x10000, virt = 0x7000, size_f = 0x100\<rparr>) ex_state)
            \<lparr>mem := store_bytes (\<lambda>a. 0) 0x7010 (bytes_of 4 0xDEADBEEF)\<rparr>))"
proof -
  have live: "heap (store_ctx 0x1000 (Memory_ctx \<lparr>phys = 0x10000, virt = 0x7000, size_f = 0x100\<rparr>) ex_state)
                (rw_region_context \<lparr>rw_region_context = 0x1000, rw_address = 0x10010, rw_offset = 0x99,
                                    rw_value = 0xDEADBEEF, rw_byte_width = 4\<rparr>)
              = Some (Memory_ctx \<lparr>phys = 0x10000, virt = 0x7000, size_f = 0x100\<rparr>)"
    by (simp add: store_ctx_def)
  have m: "mem (store_ctx 0x1000 (Memory_ctx \<lparr>phys = 0x10000, virt = 0x7000, size_f = 0x100\<rparr>) ex_state) = (\<lambda>a. 0)"
    by (simp add: store_ctx_def ex_state_def)
  show ?thesis
    using memory_region_do_rw_pointer [OF live, of UACPI_REGION_OP_WRITE 0]
    by (simp add: Let_def m)
qed





subsection \<open>Dispatch on the operation, attach and detach\<close>

lemma other_op:
  "op \<notin> {UACPI_REGION_OP_ATTACH, UACPI_REGION_OP_DETACH, UACPI_REGION_OP_READ, UACPI_REGION_OP_WRITE}
   \<Longrightarrow> \<exists>n. op = UACPI_REGION_OP_OTHER n"
  by (cases op) simp_all

lemma memory_region_attach_ok:
  assumes "memory_region_attach E a s = Some (UACPI_STATUS_OK, a', s')"
  shows "\<exists>c. heap s' (out_region_context a') = Some (Memory_ctx c)"
  using assms
  by (auto simp add: memory_region_attach_def Let_def store_ctx_def log_call_def
      split: if_splits option.splits)

lemma io_region_attach_ok:
  assumes "io_region_attach E a s = Some (UACPI_STATUS_OK, a', s')"
  shows "\<exists>c. heap s' (out_region_context a') = Some (Io_ctx c)"
  using assms
  by (auto simp add: io_region_attach_def Let_def store_ctx_def log_call_def
      split: if_splits option.splits prod.splits)

lemma pci_region_attach_ok:
  assumes "pci_region_attach E a s = Some (UACPI_STATUS_OK, a', s')"
  shows "\<exists>c. heap s' (out_region_context a') = Some (Pci_ctx c)"
  using assms
  by (auto simp add: pci_region_attach_def Let_def store_ctx_def log_call_def
      split: if_splits option.splits prod.splits)

lemma memory_region_detach_live:
  assumes "heap t p = Some (Memory_ctx c)"
  shows "memory_region_detach \<lparr>detach_region_context = p\<rparr> t =
           Some (UACPI_STATUS_OK, \<lparr>detach_region_context = p\<rparr>,
                 t\<lparr>heap := (heap t)(p := None), calls := calls t @ [K_unmap (virt c) (size_f c), K_free p]\<rparr>)"
  using assms by (simp add: memory_region_detach_def kernel_free_def log_call_def)

lemma io_region_detach_live:
  assumes "heap t p = Some (Io_ctx c)"
  shows "io_region_detach \<lparr>detach_region_context = p\<rparr> t =
           Some (UACPI_STATUS_OK, \<lparr>detach_region_context = p\<rparr>,
                 t\<lparr>heap := (heap t)(p := None), calls := calls t @ [K_io_unmap (handle c), K_free p]\<rparr>)"
  using assms by (simp add: io_region_detach_def kernel_free_def log_call_def)

lemma pci_region_detach_any:
  "pci_region_detach \<lparr>detach_region_context = p\<rparr> t =
           Some (UACPI_STATUS_OK, \<lparr>detach_region_context = p\<rparr>,
                 t\<lparr>heap := (heap t)(p := None), calls := calls t @ [K_free p]\<rparr>)"
  by (simp add: pci_region_detach_def kernel_free_def log_call_def)

text \<open>
  C8. Each of the three handlers returns the invalid-argument status for an operation
  code other than attach, detach, read and write, and leaves data and state as they
  are. A detach of the context that a successful attach of the same handler stored in
  the out slot, in a state \<open>t\<close> in which that context is still as the attach left it,
  returns success after releasing what the context owns: the memory handler unmaps
  \<open>virt\<close> and \<open>size\<close> and frees the context, the I/O handler releases the port
  handle and frees the context, the PCI handler frees the context.
\<close>

theorem handlers_other_op_and_detach:
  "(op \<notin> {UACPI_REGION_OP_ATTACH, UACPI_REGION_OP_DETACH, UACPI_REGION_OP_READ, UACPI_REGION_OP_WRITE} \<longrightarrow>
      handle_memory_region E op d s = Some (UACPI_STATUS_INVALID_ARGUMENT, d, s) \<and>
      handle_io_region E op d s = Some (UACPI_STATUS_INVALID_ARGUMENT, d, s) \<and>
      handle_pci_region E op d s = Some (UACPI_STATUS_INVALID_ARGUMENT, d, s)) \<and>
   (handle_memory_region E UACPI_REGION_OP_ATTACH (Attach_data a) s = Some (UACPI_STATUS_OK, Attach_data a', s') \<and>
    heap t (out_region_context a') = heap s' (out_region_context a') \<longrightarrow>
      (\<exists>c. heap s' (out_region_context a') = Some (Memory_ctx c) \<and>
           handle_memory_region E UACPI_REGION_OP_DETACH
             (Detach_data \<lparr>detach_region_context = out_region_context a'\<rparr>) t =
           Some (UACPI_STATUS_OK, Detach_data \<lparr>detach_region_context = out_region_context a'\<rparr>,
                 t\<lparr>heap := (heap t)(out_region_context a' := None),
                   calls := calls t @ [K_unmap (virt c) (size_f c), K_free (out_region_context a')]\<rparr>))) \<and>
   (handle_io_region E UACPI_REGION_OP_ATTACH (Attach_data a) s = Some (UACPI_STATUS_OK, Attach_data a', s') \<and>
    heap t (out_region_context a') = heap s' (out_region_context a') \<longrightarrow>
      (\<exists>c. heap s' (out_region_context a') = Some (Io_ctx c) \<and>
           handle_io_region E UACPI_REGION_OP_DETACH
             (Detach_data \<lparr>detach_region_context = out_region_context a'\<rparr>) t =
           Some (UACPI_STATUS_OK, Detach_data \<lparr>detach_region_context = out_region_context a'\<rparr>,
                 t\<lparr>heap := (heap t)(out_region_context a' := None),
                   calls := calls t @ [K_io_unmap (handle c), K_free (out_region_context a')]\<rparr>))) \<and>
   (handle_pci_region E UACPI_REGION_OP_ATTACH (Attach_data a) s = Some (UACPI_STATUS_OK, Attach_data a', s') \<and>
    heap t (out_region_context a') = heap s' (out_region_context a') \<longrightarrow>
      (\<exists>c. heap s' (out_region_context a') = Some (Pci_ctx c) \<and>
           handle_pci_region E UACPI_REGION_OP_DETACH
             (Detach_data \<lparr>detach_region_context = out_region_context a'\<rparr>) t =
           Some (UACPI_STATUS_OK, Detach_data \<lparr>detach_region_context = out_region_context a'\<rparr>,
                 t\<lparr>heap := (heap t)(out_region_context a' := None),
                   calls := calls t @ [K_free (out_region_context a')]\<rparr>)))"
proof (intro conjI impI)
  assume "op \<notin> {UACPI_REGION_OP_ATTACH, UACPI_REGION_OP_DETACH, UACPI_REGION_OP_READ, UACPI_REGION_OP_WRITE}"
  then obtain n where n: "op = UACPI_REGION_OP_OTHER n" using other_op by blast
  show "handle_memory_region E op d s = Some (UACPI_STATUS_INVALID_ARGUMENT, d, s)"
    by (simp add: n handle_memory_region_def)
  show "handle_io_region E op d s = Some (UACPI_STATUS_INVALID_ARGUMENT, d, s)"
    by (simp add: n handle_io_region_def)
  show "handle_pci_region E op d s = Some (UACPI_STATUS_INVALID_ARGUMENT, d, s)"
    by (simp add: n handle_pci_region_def)
next
  assume h: "handle_memory_region E UACPI_REGION_OP_ATTACH (Attach_data a) s = Some (UACPI_STATUS_OK, Attach_data a', s') \<and>
    heap t (out_region_context a') = heap s' (out_region_context a')"
  then have "memory_region_attach E a s = Some (UACPI_STATUS_OK, a', s')"
    by (auto simp add: handle_memory_region_def attach_result_def)
  then obtain c where c: "heap s' (out_region_context a') = Some (Memory_ctx c)"
    using memory_region_attach_ok by blast
  with h have "heap t (out_region_context a') = Some (Memory_ctx c)" by simp
  from memory_region_detach_live [OF this] c
  show "\<exists>c. heap s' (out_region_context a') = Some (Memory_ctx c) \<and>
           handle_memory_region E UACPI_REGION_OP_DETACH
             (Detach_data \<lparr>detach_region_context = out_region_context a'\<rparr>) t =
           Some (UACPI_STATUS_OK, Detach_data \<lparr>detach_region_context = out_region_context a'\<rparr>,
                 t\<lparr>heap := (heap t)(out_region_context a' := None),
                   calls := calls t @ [K_unmap (virt c) (size_f c), K_free (out_region_context a')]\<rparr>)"
    by (simp add: handle_memory_region_def detach_result_def)
next
  assume h: "handle_io_region E UACPI_REGION_OP_ATTACH (Attach_data a) s = Some (UACPI_STATUS_OK, Attach_data a', s') \<and>
    heap t (out_region_context a') = heap s' (out_region_context a')"
  then have "io_region_attach E a s = Some (UACPI_STATUS_OK, a', s')"
    by (auto simp add: handle_io_region_def attach_result_def)
  then obtain c where c: "heap s' (out_region_context a') = Some (Io_ctx c)"
    using io_region_attach_ok by blast
  with h have "heap t (out_region_context a') = Some (Io_ctx c)" by simp
  from io_region_detach_live [OF this] c
  show "\<exists>c. heap s' (out_region_context a') = Some (Io_ctx c) \<and>
           handle_io_region E UACPI_REGION_OP_DETACH
             (Detach_data \<lparr>detach_region_context = out_region_context a'\<rparr>) t =
           Some (UACPI_STATUS_OK, Detach_data \<lparr>detach_region_context = out_region_context a'\<rparr>,
                 t\<lparr>heap := (heap t)(out_region_context a' := None),
                   calls := calls t @ [K_io_unmap (handle c), K_free (out_region_context a')]\<rparr>)"
    by (simp add: handle_io_region_def detach_result_def)
next
  assume h: "handle_pci_region E UACPI_REGION_OP_ATTACH (Attach_data a) s = Some (UACPI_STATUS_OK, Attach_data a', s') \<and>
    heap t (out_region_context a') = heap s' (out_region_context a')"
  then have "pci_region_attach E a s = Some (UACPI_STATUS_OK, a', s')"
    by (auto simp add: handle_pci_region_def attach_result_def)
  then obtain c where c: "heap s' (out_region_context a') = Some (Pci_ctx c)"
    using pci_region_attach_ok by blast
  from pci_region_detach_any [of "out_region_context a'" t] c
  show "\<exists>c. heap s' (out_region_context a') = Some (Pci_ctx c) \<and>
           handle_pci_region E UACPI_REGION_OP_DETACH
             (Detach_data \<lparr>detach_region_context = out_region_context a'\<rparr>) t =
           Some (UACPI_STATUS_OK, Detach_data \<lparr>detach_region_context = out_region_context a'\<rparr>,
                 t\<lparr>heap := (heap t)(out_region_context a' := None),
                   calls := calls t @ [K_free (out_region_context a')]\<rparr>)"
    by (simp add: handle_pci_region_def detach_result_def)
qed

theorem handlers_other_op_and_detach_witness:
  "handle_memory_region ex_env (UACPI_REGION_OP_OTHER 7)
     (Attach_data \<lparr>region_node = ex_reg, out_region_context = 0\<rparr>) ex_state =
     Some (UACPI_STATUS_INVALID_ARGUMENT, Attach_data \<lparr>region_node = ex_reg, out_region_context = 0\<rparr>, ex_state) \<and>
   handle_io_region ex_env (UACPI_REGION_OP_OTHER 7)
     (Attach_data \<lparr>region_node = ex_reg, out_region_context = 0\<rparr>) ex_state =
     Some (UACPI_STATUS_INVALID_ARGUMENT, Attach_data \<lparr>region_node = ex_reg, out_region_context = 0\<rparr>, ex_state) \<and>
   handle_pci_region ex_env (UACPI_REGION_OP_OTHER 7)
     (Attach_data \<lparr>region_node = ex_reg, out_region_context = 0\<rparr>) ex_state =
     Some (UACPI_STATUS_INVALID_ARGUMENT, Attach_data \<lparr>region_node = ex_reg, out_region_context = 0\<rparr>, ex_state) \<and>
   handle_memory_region ex_env UACPI_REGION_OP_ATTACH
     (Attach_data \<lparr>region_node = ex_reg, out_region_context = 0\<rparr>) ex_state =
     Some (UACPI_STATUS_OK, Attach_data \<lparr>region_node = ex_reg, out_region_context = 0x1000\<rparr>,
           \<lparr>heap = [0x1000 \<mapsto> Memory_ctx \<lparr>phys = 0x10000, virt = 0x7000, size_f = 0x100\<rparr>],
            mem = (\<lambda>a. 0), calls = [K_alloc 0x1000, K_map 0x10000 0x100]\<rparr>) \<and>
   handle_memory_region ex_env UACPI_REGION_OP_DETACH (Detach_data \<lparr>detach_region_context = 0x1000\<rparr>)
     \<lparr>heap = [0x1000 \<mapsto> Memory_ctx \<lparr>phys = 0x10000, virt = 0x7000, size_f = 0x100\<rparr>],
      mem = (\<lambda>a. 0), calls = [K_alloc 0x1000, K_map 0x10000 0x100]\<rparr> =
     Some (UACPI_STATUS_OK, Detach_data \<lparr>detach_region_context = 0x1000\<rparr>,
           \<lparr>heap = Map.empty, mem = (\<lambda>a. 0),
            calls = [K_alloc 0x1000, K_map 0x10000 0x100, K_unmap 0x7000 0x100, K_free 0x1000]\<rparr>) \<and>
   handle_io_region ex_env UACPI_REGION_OP_ATTACH
     (Attach_data \<lparr>region_node = ex_reg, out_region_context = 0\<rparr>) ex_state =
     Some (UACPI_STATUS_OK, Attach_data \<lparr>region_node = ex_reg, out_region_context = 0x1000\<rparr>,
           \<lparr>heap = [0x1000 \<mapsto> Io_ctx \<lparr>base = 0x10000, handle = 7\<rparr>],
            mem = (\<lambda>a. 0), calls = [K_alloc 0x1000, K_io_map 0x10000 0x100]\<rparr>) \<and>
   handle_io_region ex_env UACPI_REGION_OP_DETACH (Detach_data \<lparr>detach_region_context = 0x1000\<rparr>)
     \<lparr>heap = [0x1000 \<mapsto> Io_ctx \<lparr>base = 0x10000, handle = 7\<rparr>],
      mem = (\<lambda>a. 0), calls = [K_alloc 0x1000, K_io_map 0x10000 0x100]\<rparr> =
     Some (UACPI_STATUS_OK, Detach_data \<lparr>detach_region_context = 0x1000\<rparr>,
           \<lparr>heap = Map.empty, mem = (\<lambda>a. 0),
            calls = [K_alloc 0x1000, K_io_map 0x10000 0x100, K_io_unmap 7, K_free 0x1000]\<rparr>) \<and>
   handle_pci_region ex_env UACPI_REGION_OP_ATTACH
     (Attach_data \<lparr>region_node = ex_reg, out_region_context = 0\<rparr>) ex_state =
     Some (UACPI_STATUS_OK, Attach_data \<lparr>region_node = ex_reg, out_region_context = 0x2000\<rparr>,
           \<lparr>heap = [0x2000 \<mapsto> Pci_ctx \<lparr>address = \<lparr>segment = 1, bus = 0x40, device = 0x1F, function_f = 3\<rparr>\<rparr>],
            mem = (\<lambda>a. 0),
            calls = [K_calloc 0x2000, K_trace ''found a PCI root node'', K_trace ''detected PCI device'']\<rparr>) \<and>
   handle_pci_region ex_env UACPI_REGION_OP_DETACH (Detach_data \<lparr>detach_region_context = 0x2000\<rparr>)
     \<lparr>heap = [0x2000 \<mapsto> Pci_ctx \<lparr>address = \<lparr>segment = 1, bus = 0x40, device = 0x1F, function_f = 3\<rparr>\<rparr>],
      mem = (\<lambda>a. 0),
      calls = [K_calloc 0x2000, K_trace ''found a PCI root node'', K_trace ''detected PCI device'']\<rparr> =
     Some (UACPI_STATUS_OK, Detach_data \<lparr>detach_region_context = 0x2000\<rparr>,
           \<lparr>heap = Map.empty, mem = (\<lambda>a. 0),
            calls = [K_calloc 0x2000, K_trace ''found a PCI root node'', K_trace ''detected PCI device'',
                     K_free 0x2000]\<rparr>)"
proof -
  have mem_attach: "memory_region_attach ex_env \<lparr>region_node = ex_reg, out_region_context = 0\<rparr> ex_state =
     Some (UACPI_STATUS_OK, \<lparr>region_node = ex_reg, out_region_context = 0x1000\<rparr>,
           \<lparr>heap = [0x1000 \<mapsto> Memory_ctx \<lparr>phys = 0x10000, virt = 0x7000, size_f = 0x100\<rparr>],
            mem = (\<lambda>a. 0), calls = [K_alloc 0x1000, K_map 0x10000 0x100]\<rparr>)"
    by (simp add: memory_region_attach_def ex_env_def ex_reg_def ex_object_def ex_state_def
        Let_def log_call_def store_ctx_def)
  have io_attach: "io_region_attach ex_env \<lparr>region_node = ex_reg, out_region_context = 0\<rparr> ex_state =
     Some (UACPI_STATUS_OK, \<lparr>region_node = ex_reg, out_region_context = 0x1000\<rparr>,
           \<lparr>heap = [0x1000 \<mapsto> Io_ctx \<lparr>base = 0x10000, handle = 7\<rparr>],
            mem = (\<lambda>a. 0), calls = [K_alloc 0x1000, K_io_map 0x10000 0x100]\<rparr>)"
    by (simp add: io_region_attach_def ex_env_def ex_reg_def ex_object_def ex_state_def
        Let_def log_call_def store_ctx_def)
  have pci_attach: "pci_region_attach ex_env \<lparr>region_node = ex_reg, out_region_context = 0\<rparr> ex_state =
     Some (UACPI_STATUS_OK, \<lparr>region_node = ex_reg, out_region_context = 0x2000\<rparr>,
           \<lparr>heap = [0x2000 \<mapsto> Pci_ctx \<lparr>address = \<lparr>segment = 1, bus = 0x40, device = 0x1F, function_f = 3\<rparr>\<rparr>],
            mem = (\<lambda>a. 0),
            calls = [K_calloc 0x2000, K_trace ''found a PCI root node'', K_trace ''detected PCI device'']\<rparr>)"
    by (simp add: pci_region_attach_def ex_env_def ex_reg_def ex_dev0_def ex_pci0_def ex_sb_def ex_root_def
        ex_object_def ex_state_def ex_eval_typed_def
        find_pci_root_def is_node_pci_root_def is_device_def set_adr_def set_seg_def set_bbn_def
        zero_pci_address_def Let_def log_call_def store_ctx_def)
  let ?a = "\<lparr>region_node = ex_reg, out_region_context = 0\<rparr>"
  let ?sm = "\<lparr>heap = [0x1000 \<mapsto> Memory_ctx \<lparr>phys = 0x10000, virt = 0x7000, size_f = 0x100\<rparr>],
               mem = (\<lambda>a. 0), calls = [K_alloc 0x1000, K_map 0x10000 0x100]\<rparr>"
  let ?si = "\<lparr>heap = [0x1000 \<mapsto> Io_ctx \<lparr>base = 0x10000, handle = 7\<rparr>],
               mem = (\<lambda>a. 0), calls = [K_alloc 0x1000, K_io_map 0x10000 0x100]\<rparr>"
  let ?sp = "\<lparr>heap = [0x2000 \<mapsto> Pci_ctx \<lparr>address = \<lparr>segment = 1, bus = 0x40, device = 0x1F, function_f = 3\<rparr>\<rparr>],
               mem = (\<lambda>a. 0),
               calls = [K_calloc 0x2000, K_trace ''found a PCI root node'', K_trace ''detected PCI device'']\<rparr>"
  note m = handlers_other_op_and_detach [of "UACPI_REGION_OP_OTHER 7" ex_env "Attach_data ?a" ex_state
      ?a "\<lparr>region_node = ex_reg, out_region_context = 0x1000\<rparr>" ?sm ?sm]
  note i = handlers_other_op_and_detach [of "UACPI_REGION_OP_OTHER 7" ex_env "Attach_data ?a" ex_state
      ?a "\<lparr>region_node = ex_reg, out_region_context = 0x1000\<rparr>" ?si ?si]
  note p = handlers_other_op_and_detach [of "UACPI_REGION_OP_OTHER 7" ex_env "Attach_data ?a" ex_state
      ?a "\<lparr>region_node = ex_reg, out_region_context = 0x2000\<rparr>" ?sp ?sp]
  have hm: "handle_memory_region ex_env UACPI_REGION_OP_ATTACH (Attach_data ?a) ex_state =
              Some (UACPI_STATUS_OK, Attach_data \<lparr>region_node = ex_reg, out_region_context = 0x1000\<rparr>, ?sm)"
    by (simp add: handle_memory_region_def attach_result_def mem_attach)
  have hi: "handle_io_region ex_env UACPI_REGION_OP_ATTACH (Attach_data ?a) ex_state =
              Some (UACPI_STATUS_OK, Attach_data \<lparr>region_node = ex_reg, out_region_context = 0x1000\<rparr>, ?si)"
    by (simp add: handle_io_region_def attach_result_def io_attach)
  have hp: "handle_pci_region ex_env UACPI_REGION_OP_ATTACH (Attach_data ?a) ex_state =
              Some (UACPI_STATUS_OK, Attach_data \<lparr>region_node = ex_reg, out_region_context = 0x2000\<rparr>, ?sp)"
    by (simp add: handle_pci_region_def attach_result_def pci_attach)
  have other: "handle_memory_region ex_env (UACPI_REGION_OP_OTHER 7) (Attach_data ?a) ex_state =
                 Some (UACPI_STATUS_INVALID_ARGUMENT, Attach_data ?a, ex_state) \<and>
               handle_io_region ex_env (UACPI_REGION_OP_OTHER 7) (Attach_data ?a) ex_state =
                 Some (UACPI_STATUS_INVALID_ARGUMENT, Attach_data ?a, ex_state) \<and>
               handle_pci_region ex_env (UACPI_REGION_OP_OTHER 7) (Attach_data ?a) ex_state =
                 Some (UACPI_STATUS_INVALID_ARGUMENT, Attach_data ?a, ex_state)"
    using m [THEN conjunct1] by simp
  have dm: "handle_memory_region ex_env UACPI_REGION_OP_DETACH (Detach_data \<lparr>detach_region_context = 0x1000\<rparr>) ?sm =
     Some (UACPI_STATUS_OK, Detach_data \<lparr>detach_region_context = 0x1000\<rparr>,
           \<lparr>heap = Map.empty, mem = (\<lambda>a. 0),
            calls = [K_alloc 0x1000, K_map 0x10000 0x100, K_unmap 0x7000 0x100, K_free 0x1000]\<rparr>)"
    using m [THEN conjunct2, THEN conjunct1] hm by simp
  have di: "handle_io_region ex_env UACPI_REGION_OP_DETACH (Detach_data \<lparr>detach_region_context = 0x1000\<rparr>) ?si =
     Some (UACPI_STATUS_OK, Detach_data \<lparr>detach_region_context = 0x1000\<rparr>,
           \<lparr>heap = Map.empty, mem = (\<lambda>a. 0),
            calls = [K_alloc 0x1000, K_io_map 0x10000 0x100, K_io_unmap 7, K_free 0x1000]\<rparr>)"
    using i [THEN conjunct2, THEN conjunct2, THEN conjunct1] hi by simp
  have dp: "handle_pci_region ex_env UACPI_REGION_OP_DETACH (Detach_data \<lparr>detach_region_context = 0x2000\<rparr>) ?sp =
     Some (UACPI_STATUS_OK, Detach_data \<lparr>detach_region_context = 0x2000\<rparr>,
           \<lparr>heap = Map.empty, mem = (\<lambda>a. 0),
            calls = [K_calloc 0x2000, K_trace ''found a PCI root node'', K_trace ''detected PCI device'',
                     K_free 0x2000]\<rparr>)"
    using p [THEN conjunct2, THEN conjunct2, THEN conjunct2] hp by simp
  show ?thesis
    using other hm dm hi di hp dp by (intro conjI) (erule conjunct1 conjunct2 | assumption | simp only:)+
qed

subsection \<open>The PCI attach\<close>

lemma find_pci_root_loop_eq:
  "find_pci_root_loop E node p s =
     (case find (is_node_pci_root E) (ancestors_below_root p) of
        None \<Rightarrow> (node, log_call (K_trace_region_error (Some node) ''unable to find PCI root controlling''
                                   UACPI_STATUS_NOT_FOUND) s)
      | Some r \<Rightarrow> (r, log_call (K_trace ''found a PCI root node'') s))"
  by (induction E node p s rule: find_pci_root_loop.induct) simp_all

lemma find_pci_root_eq:
  assumes "parent node = Some p"
  shows "find_pci_root E node s =
           Some (pci_root_of E node,
                 log_call (case find (is_node_pci_root E) (ancestors_below_root p) of
                             None \<Rightarrow> K_trace_region_error (Some node) ''unable to find PCI root controlling''
                                       UACPI_STATUS_NOT_FOUND
                           | Some r \<Rightarrow> K_trace ''found a PCI root node'') s)"
  using assms
  by (simp add: find_pci_root_def pci_root_of_def find_pci_root_loop_eq split: option.splits)

lemma is_node_pci_root_iff:
  "is_node_pci_root E n \<longleftrightarrow>
     (fst (uacpi_eval_hid E n) = UACPI_STATUS_OK \<and> uacpi_is_pci_root_bridge E (snd (uacpi_eval_hid E n))) \<or>
     (fst (uacpi_eval_cid E n) = UACPI_STATUS_OK \<and>
        (\<exists>i \<in> set (snd (uacpi_eval_cid E n)). uacpi_is_pci_root_bridge E i))"
proof -
  have "id_list_has_root E ids \<longleftrightarrow> (\<exists>i \<in> set ids. uacpi_is_pci_root_bridge E i)" for ids
    by (induction ids) simp_all
  then show ?thesis
    by (auto simp add: is_node_pci_root_def split: prod.splits)
qed

lemma pci_region_attach_device:
  assumes "uacpi_kernel_calloc E s \<noteq> 0"
    and "object (region_node data) = Some ro"
    and "parent (region_node data) = Some p"
    and "find_device (Some (region_node data)) = Some dev"
  shows "\<exists>s'. pci_region_attach E data s =
           Some (UACPI_STATUS_OK, data\<lparr>out_region_context := uacpi_kernel_calloc E s\<rparr>, s') \<and>
         heap s' = (heap s)(uacpi_kernel_calloc E s \<mapsto>
                      Pci_ctx \<lparr>address = resolved_address E (pci_root_of E (region_node data)) dev\<rparr>)"
  using assms
  by (simp add: pci_region_attach_def Let_def find_pci_root_eq resolved_address_def
      log_call_def store_ctx_def)

lemma pci_region_attach_no_device:
  assumes "uacpi_kernel_calloc E s \<noteq> 0"
    and "object (region_node data) = Some ro"
    and "parent (region_node data) = Some p"
    and "find_device (Some (region_node data)) = None"
  shows "\<exists>s'. pci_region_attach E data s = Some (UACPI_STATUS_NOT_FOUND, data, s') \<and>
         heap s' = (heap s)(uacpi_kernel_calloc E s := None) \<and>
         last (calls s') = K_free (uacpi_kernel_calloc E s)"
  using assms
  by (simp add: pci_region_attach_def Let_def find_pci_root_eq
      log_call_def store_ctx_def kernel_free_def)

lemma pci_region_attach_no_memory:
  assumes "uacpi_kernel_calloc E s = 0"
  shows "pci_region_attach E data s = Some (UACPI_STATUS_OUT_OF_MEMORY, data, log_call (K_calloc 0) s)"
  using assms by (simp add: pci_region_attach_def Let_def)

lemma resolved_address_fields:
  "function_f (resolved_address E r d) = function_f (set_adr (uacpi_eval_typed E d ''_ADR'') zero_pci_address)"
  "device (resolved_address E r d) = device (set_adr (uacpi_eval_typed E d ''_ADR'') zero_pci_address)"
  "segment (resolved_address E r d) = segment (set_seg (uacpi_eval_typed E r ''_SEG'') zero_pci_address)"
  "bus (resolved_address E r d) = bus (set_bbn (uacpi_eval_typed E r ''_BBN'') zero_pci_address)"
  by (simp_all add: resolved_address_def set_adr_def set_seg_def set_bbn_def zero_pci_address_def
      split: prod.splits)

lemma low_byte_mask: "(0xFF :: u64) = mask 8"
  by (simp add: mask_eq_exp_minus_1)

lemma adr_mask: "(0xFF00FF :: u64) = push_bit 16 (mask 8) OR mask 8"
  by (simp add: mask_eq_exp_minus_1 push_bit_eq_mult)

lemma adr_function_bits: "(v :: u64) AND 0xFF = (v AND 0xFF00FF) AND 0xFF"
  unfolding adr_mask low_byte_mask
  by (rule bit_word_eqI) (auto simp add: bit_simps)

lemma adr_device_bits: "drop_bit 16 (v :: u64) AND 0xFF = drop_bit 16 (v AND 0xFF00FF) AND 0xFF"
  unfolding adr_mask low_byte_mask
  by (rule bit_word_eqI) (auto simp add: bit_simps)

lemma set_adr_masked:
  assumes "integer obj' AND 0xFF00FF = integer obj AND 0xFF00FF"
  shows "set_adr (UACPI_STATUS_OK, obj') a = set_adr (UACPI_STATUS_OK, obj) a"
proof -
  have "integer obj' AND 0xFF = (integer obj' AND 0xFF00FF) AND 0xFF"
    by (rule adr_function_bits)
  also have "\<dots> = (integer obj AND 0xFF00FF) AND 0xFF"
    by (simp only: assms)
  also have "\<dots> = integer obj AND 0xFF"
    by (rule adr_function_bits [symmetric])
  finally have f: "integer obj' AND 0xFF = integer obj AND 0xFF" .
  have "drop_bit 16 (integer obj') AND 0xFF = drop_bit 16 (integer obj' AND 0xFF00FF) AND 0xFF"
    by (rule adr_device_bits)
  also have "\<dots> = drop_bit 16 (integer obj AND 0xFF00FF) AND 0xFF"
    by (simp only: assms)
  also have "\<dots> = drop_bit 16 (integer obj) AND 0xFF"
    by (rule adr_device_bits [symmetric])
  finally have d: "drop_bit 16 (integer obj') AND 0xFF = drop_bit 16 (integer obj) AND 0xFF" .
  show ?thesis
    by (simp add: set_adr_def f d)
qed

lemma id_list_has_root_eval_typed:
  "id_list_has_root (E\<lparr>uacpi_eval_typed := f\<rparr>) ids = id_list_has_root E ids"
  by (induction ids) simp_all

lemma is_node_pci_root_eval_typed:
  "is_node_pci_root (E\<lparr>uacpi_eval_typed := f\<rparr>) = is_node_pci_root E"
  by (rule ext) (simp add: is_node_pci_root_def id_list_has_root_eval_typed)

lemma pci_root_of_eval_typed:
  "pci_root_of (E\<lparr>uacpi_eval_typed := f\<rparr>) node = pci_root_of E node"
  by (simp add: pci_root_of_def is_node_pci_root_eval_typed split: option.splits)

lemma pci_region_attach_device_state:
  assumes "uacpi_kernel_calloc E s \<noteq> 0"
    and "object (region_node data) = Some ro"
    and "parent (region_node data) = Some p"
    and "find_device (Some (region_node data)) = Some dev"
  shows "pci_region_attach E data s =
           Some (UACPI_STATUS_OK, data\<lparr>out_region_context := uacpi_kernel_calloc E s\<rparr>,
                 log_call (K_trace ''detected PCI device'')
                   (store_ctx (uacpi_kernel_calloc E s)
                      (Pci_ctx \<lparr>address = resolved_address E (pci_root_of E (region_node data)) dev\<rparr>)
                      (log_call (case find (is_node_pci_root E) (ancestors_below_root p) of
                                   None \<Rightarrow> K_trace_region_error (Some (region_node data))
                                             ''unable to find PCI root controlling'' UACPI_STATUS_NOT_FOUND
                                 | Some r \<Rightarrow> K_trace ''found a PCI root node'')
                         (store_ctx (uacpi_kernel_calloc E s) (Pci_ctx \<lparr>address = zero_pci_address\<rparr>)
                            (log_call (K_calloc (uacpi_kernel_calloc E s)) s)))))"
  using assms
  by (simp add: pci_region_attach_def Let_def find_pci_root_eq resolved_address_def)

lemma resolved_address_adr_update:
  assumes "integer (obj' :: uacpi_object) AND 0xFF00FF = integer obj AND 0xFF00FF"
    and "uacpi_eval_typed E dev ''_ADR'' = (UACPI_STATUS_OK, obj)"
  shows "resolved_address
           (E\<lparr>uacpi_eval_typed :=
                (uacpi_eval_typed E)(dev := (uacpi_eval_typed E dev)(''_ADR'' := (UACPI_STATUS_OK, obj')))\<rparr>)
           r dev
         = resolved_address E r dev"
proof -
  have "set_adr (UACPI_STATUS_OK, obj') zero_pci_address =
        set_adr (uacpi_eval_typed E dev ''_ADR'') zero_pci_address"
    using set_adr_masked [OF assms(1)] assms(2) by simp
  then show ?thesis
    by (simp add: resolved_address_def)
qed

lemma ex_calloc: "uacpi_kernel_calloc ex_env ex_state \<noteq> 0"
  by (simp add: ex_env_def)

lemma ex_reg_object:
  "object (region_node \<lparr>region_node = ex_reg, out_region_context = oc\<rparr>) =
     Some (ex_object UACPI_OBJECT_OPERATION_REGION 0)"
  by (simp add: ex_reg_def)

lemma ex_reg_parent:
  "parent (region_node \<lparr>region_node = ex_reg, out_region_context = oc\<rparr>) = Some ex_dev0"
  by (simp add: ex_reg_def)

lemma ex_reg_device:
  "find_device (Some (region_node \<lparr>region_node = ex_reg, out_region_context = oc\<rparr>)) = Some ex_dev0"
  by (simp add: ex_reg_def ex_dev0_def is_device_def ex_object_def)

lemma ex_reg_root:
  "pci_root_of ex_env (region_node \<lparr>region_node = ex_reg, out_region_context = oc\<rparr>) = ex_pci0"
  by (simp add: pci_root_of_def ex_reg_def ex_dev0_def ex_pci0_def ex_sb_def ex_root_def
      is_node_pci_root_def ex_env_def)

text \<open>
  C3. When the \<^verbatim>\<open>_ADR\<close> of the controlling device evaluates to the integer \<open>v\<close>, the
  context the PCI attach stores has \<open>function = v AND 0xFF\<close> and
  \<open>device = (v >> 16) AND 0xFF\<close>. An \<^verbatim>\<open>_ADR\<close> value that agrees with \<open>v\<close> on the bits
  0 to 7 and 16 to 23 gives the same attach, whatever its bits 8 to 15 and 24 and above.
\<close>

theorem pci_attach_adr_decoding:
  assumes "uacpi_kernel_calloc E s \<noteq> 0"
    and "object (region_node data) = Some ro"
    and "parent (region_node data) = Some p"
    and "find_device (Some (region_node data)) = Some dev"
    and "uacpi_eval_typed E dev ''_ADR'' = (UACPI_STATUS_OK, obj)"
  shows "\<exists>s' c. pci_region_attach E data s =
                  Some (UACPI_STATUS_OK, data\<lparr>out_region_context := uacpi_kernel_calloc E s\<rparr>, s') \<and>
                heap s' (uacpi_kernel_calloc E s) = Some (Pci_ctx c) \<and>
                function_f (address c) = ucast (integer obj AND 0xFF) \<and>
                device (address c) = ucast (drop_bit 16 (integer obj) AND 0xFF) \<and>
                (\<forall>obj' :: uacpi_object. integer obj' AND 0xFF00FF = integer obj AND 0xFF00FF \<longrightarrow>
                   pci_region_attach
                     (E\<lparr>uacpi_eval_typed :=
                          (uacpi_eval_typed E)(dev := (uacpi_eval_typed E dev)(''_ADR'' := (UACPI_STATUS_OK, obj')))\<rparr>)
                     data s
                   = pci_region_attach E data s)"
proof -
  from pci_region_attach_device [OF assms(1-4)]
  obtain s' where att: "pci_region_attach E data s =
        Some (UACPI_STATUS_OK, data\<lparr>out_region_context := uacpi_kernel_calloc E s\<rparr>, s')"
    and hp: "heap s' = (heap s)(uacpi_kernel_calloc E s \<mapsto>
                      Pci_ctx \<lparr>address = resolved_address E (pci_root_of E (region_node data)) dev\<rparr>)"
    by blast
  let ?c = "\<lparr>address = resolved_address E (pci_root_of E (region_node data)) dev\<rparr>"
  have live: "heap s' (uacpi_kernel_calloc E s) = Some (Pci_ctx ?c)"
    by (simp add: hp)
  have fn: "function_f (address ?c) = ucast (integer obj AND 0xFF)"
    by (simp add: resolved_address_fields assms(5) set_adr_def)
  have dv: "device (address ?c) = ucast (drop_bit 16 (integer obj) AND 0xFF)"
    by (simp add: resolved_address_fields assms(5) set_adr_def)
  have irr: "pci_region_attach
               (E\<lparr>uacpi_eval_typed :=
                    (uacpi_eval_typed E)(dev := (uacpi_eval_typed E dev)(''_ADR'' := (UACPI_STATUS_OK, obj')))\<rparr>)
               data s
             = pci_region_attach E data s"
    if m: "integer obj' AND 0xFF00FF = integer obj AND 0xFF00FF" for obj' :: uacpi_object
  proof -
    let ?E' = "E\<lparr>uacpi_eval_typed :=
                    (uacpi_eval_typed E)(dev := (uacpi_eval_typed E dev)(''_ADR'' := (UACPI_STATUS_OK, obj')))\<rparr>"
    have c': "uacpi_kernel_calloc ?E' s \<noteq> 0" using assms(1) by simp
    show ?thesis
      unfolding pci_region_attach_device_state [OF c' assms(2-4)]
        pci_region_attach_device_state [OF assms(1-4)]
        resolved_address_adr_update [OF m assms(5)]
      by (simp add: pci_root_of_eval_typed is_node_pci_root_eval_typed)
  qed
  show ?thesis
  proof (intro exI conjI allI impI)
    show "pci_region_attach E data s =
        Some (UACPI_STATUS_OK, data\<lparr>out_region_context := uacpi_kernel_calloc E s\<rparr>, s')"
      by (fact att)
    show "heap s' (uacpi_kernel_calloc E s) = Some (Pci_ctx ?c)"
      by (fact live)
    show "function_f (address ?c) = ucast (integer obj AND 0xFF)"
      by (fact fn)
    show "device (address ?c) = ucast (drop_bit 16 (integer obj) AND 0xFF)"
      by (fact dv)
    fix obj' :: uacpi_object
    assume "integer obj' AND 0xFF00FF = integer obj AND 0xFF00FF"
    then show "pci_region_attach
               (E\<lparr>uacpi_eval_typed :=
                    (uacpi_eval_typed E)(dev := (uacpi_eval_typed E dev)(''_ADR'' := (UACPI_STATUS_OK, obj')))\<rparr>)
               data s
             = pci_region_attach E data s"
      by (rule irr)
  qed
qed


theorem pci_attach_adr_decoding_witness:
  "\<exists>s' c. pci_region_attach ex_env \<lparr>region_node = ex_reg, out_region_context = 0\<rparr> ex_state =
            Some (UACPI_STATUS_OK, \<lparr>region_node = ex_reg, out_region_context = 0x2000\<rparr>, s') \<and>
          heap s' 0x2000 = Some (Pci_ctx c) \<and>
          function_f (address c) = 3 \<and>
          device (address c) = 0x1F \<and>
          pci_region_attach
            (ex_env\<lparr>uacpi_eval_typed :=
                (uacpi_eval_typed ex_env)(ex_dev0 := (uacpi_eval_typed ex_env ex_dev0)
                   (''_ADR'' := (UACPI_STATUS_OK, ex_object UACPI_OBJECT_INTEGER 0xAB1FCD03)))\<rparr>)
            \<lparr>region_node = ex_reg, out_region_context = 0\<rparr> ex_state
          = pci_region_attach ex_env \<lparr>region_node = ex_reg, out_region_context = 0\<rparr> ex_state"
proof -
  have adr: "uacpi_eval_typed ex_env ex_dev0 ''_ADR'' = (UACPI_STATUS_OK, ex_object UACPI_OBJECT_INTEGER 0x1F0003)"
    by (simp add: ex_env_def ex_eval_typed_def ex_dev0_def)
  from pci_attach_adr_decoding [OF ex_calloc ex_reg_object ex_reg_parent ex_reg_device adr]
  obtain s' c where
    att: "pci_region_attach ex_env \<lparr>region_node = ex_reg, out_region_context = 0\<rparr> ex_state =
            Some (UACPI_STATUS_OK,
                  \<lparr>region_node = ex_reg, out_region_context = 0\<rparr>
                    \<lparr>out_region_context := uacpi_kernel_calloc ex_env ex_state\<rparr>, s')"
    and live: "heap s' (uacpi_kernel_calloc ex_env ex_state) = Some (Pci_ctx c)"
    and fn: "function_f (address c) = ucast (integer (ex_object UACPI_OBJECT_INTEGER 0x1F0003) AND 0xFF)"
    and dv: "device (address c) = ucast (drop_bit 16 (integer (ex_object UACPI_OBJECT_INTEGER 0x1F0003)) AND 0xFF)"
    and irr: "\<forall>obj' :: uacpi_object.
                integer obj' AND 0xFF00FF = integer (ex_object UACPI_OBJECT_INTEGER 0x1F0003) AND 0xFF00FF \<longrightarrow>
                pci_region_attach
                  (ex_env\<lparr>uacpi_eval_typed :=
                      (uacpi_eval_typed ex_env)(ex_dev0 := (uacpi_eval_typed ex_env ex_dev0)
                         (''_ADR'' := (UACPI_STATUS_OK, obj')))\<rparr>)
                  \<lparr>region_node = ex_reg, out_region_context = 0\<rparr> ex_state
                = pci_region_attach ex_env \<lparr>region_node = ex_reg, out_region_context = 0\<rparr> ex_state"
    by blast
  have c: "uacpi_kernel_calloc ex_env ex_state = 0x2000"
    by (simp add: ex_env_def)
  have agree: "integer (ex_object UACPI_OBJECT_INTEGER 0xAB1FCD03) AND 0xFF00FF =
        integer (ex_object UACPI_OBJECT_INTEGER 0x1F0003) AND 0xFF00FF"
    by (simp add: ex_object_def)
  have same:
    "pci_region_attach
       (ex_env\<lparr>uacpi_eval_typed :=
           (uacpi_eval_typed ex_env)(ex_dev0 := (uacpi_eval_typed ex_env ex_dev0)
              (''_ADR'' := (UACPI_STATUS_OK, ex_object UACPI_OBJECT_INTEGER 0xAB1FCD03)))\<rparr>)
       \<lparr>region_node = ex_reg, out_region_context = 0\<rparr> ex_state
     = pci_region_attach ex_env \<lparr>region_node = ex_reg, out_region_context = 0\<rparr> ex_state"
    by (rule irr [rule_format, OF agree])
  have f3: "function_f (address c) = 3"
    using fn by (simp add: ex_object_def)
  have d31: "device (address c) = 0x1F"
    using dv by (simp add: ex_object_def)
  show ?thesis
  proof (intro exI conjI)
    show "pci_region_attach ex_env \<lparr>region_node = ex_reg, out_region_context = 0\<rparr> ex_state =
            Some (UACPI_STATUS_OK, \<lparr>region_node = ex_reg, out_region_context = 0x2000\<rparr>, s')"
      using att by (simp add: c)
    show "heap s' 0x2000 = Some (Pci_ctx c)"
      using live by (simp add: c)
    show "function_f (address c) = 3" by (fact f3)
    show "device (address c) = 0x1F" by (fact d31)
    show "pci_region_attach
       (ex_env\<lparr>uacpi_eval_typed :=
           (uacpi_eval_typed ex_env)(ex_dev0 := (uacpi_eval_typed ex_env ex_dev0)
              (''_ADR'' := (UACPI_STATUS_OK, ex_object UACPI_OBJECT_INTEGER 0xAB1FCD03)))\<rparr>)
       \<lparr>region_node = ex_reg, out_region_context = 0\<rparr> ex_state
     = pci_region_attach ex_env \<lparr>region_node = ex_reg, out_region_context = 0\<rparr> ex_state"
      by (fact same)
  qed
qed

text \<open>
  C7. In a PCI attach that has its context and has found the controlling device, a
  failed evaluation of \<^verbatim>\<open>_ADR\<close>, \<^verbatim>\<open>_SEG\<close> or \<^verbatim>\<open>_BBN\<close> is no failure of the
  attach: the attach returns success with the context in the out slot, and the fields
  of the failed evaluation (device and function, segment, bus) are 0.
\<close>

theorem pci_attach_eval_failures_not_fatal:
  assumes "uacpi_kernel_calloc E s \<noteq> 0"
    and "object (region_node data) = Some ro"
    and "parent (region_node data) = Some p"
    and "find_device (Some (region_node data)) = Some dev"
  shows "\<exists>s' c. pci_region_attach E data s =
                  Some (UACPI_STATUS_OK, data\<lparr>out_region_context := uacpi_kernel_calloc E s\<rparr>, s') \<and>
                heap s' (uacpi_kernel_calloc E s) = Some (Pci_ctx c) \<and>
                (fst (uacpi_eval_typed E dev ''_ADR'') \<noteq> UACPI_STATUS_OK \<longrightarrow>
                   device (address c) = 0 \<and> function_f (address c) = 0) \<and>
                (fst (uacpi_eval_typed E (pci_root_of E (region_node data)) ''_SEG'') \<noteq> UACPI_STATUS_OK \<longrightarrow>
                   segment (address c) = 0) \<and>
                (fst (uacpi_eval_typed E (pci_root_of E (region_node data)) ''_BBN'') \<noteq> UACPI_STATUS_OK \<longrightarrow>
                   bus (address c) = 0)"
proof -
  from pci_region_attach_device [OF assms]
  obtain s' where att: "pci_region_attach E data s =
        Some (UACPI_STATUS_OK, data\<lparr>out_region_context := uacpi_kernel_calloc E s\<rparr>, s')"
    and hp: "heap s' = (heap s)(uacpi_kernel_calloc E s \<mapsto>
                      Pci_ctx \<lparr>address = resolved_address E (pci_root_of E (region_node data)) dev\<rparr>)"
    by blast
  let ?r = "pci_root_of E (region_node data)"
  let ?c = "\<lparr>address = resolved_address E ?r dev\<rparr>"
  have live: "heap s' (uacpi_kernel_calloc E s) = Some (Pci_ctx ?c)"
    by (simp add: hp)
  have adr: "device (address ?c) = 0 \<and> function_f (address ?c) = 0"
    if "fst (uacpi_eval_typed E dev ''_ADR'') \<noteq> UACPI_STATUS_OK"
    using that
    by (auto simp add: resolved_address_fields set_adr_def zero_pci_address_def split: prod.splits)
  have seg: "segment (address ?c) = 0"
    if "fst (uacpi_eval_typed E ?r ''_SEG'') \<noteq> UACPI_STATUS_OK"
    using that
    by (auto simp add: resolved_address_fields set_seg_def zero_pci_address_def split: prod.splits)
  have bbn: "bus (address ?c) = 0"
    if "fst (uacpi_eval_typed E ?r ''_BBN'') \<noteq> UACPI_STATUS_OK"
    using that
    by (auto simp add: resolved_address_fields set_bbn_def zero_pci_address_def split: prod.splits)
  show ?thesis
  proof (intro exI conjI)
    show "pci_region_attach E data s =
        Some (UACPI_STATUS_OK, data\<lparr>out_region_context := uacpi_kernel_calloc E s\<rparr>, s')"
      by (fact att)
    show "heap s' (uacpi_kernel_calloc E s) = Some (Pci_ctx ?c)"
      by (fact live)
    show "fst (uacpi_eval_typed E dev ''_ADR'') \<noteq> UACPI_STATUS_OK \<longrightarrow>
            device (address ?c) = 0 \<and> function_f (address ?c) = 0"
      using adr by blast
    show "fst (uacpi_eval_typed E ?r ''_SEG'') \<noteq> UACPI_STATUS_OK \<longrightarrow> segment (address ?c) = 0"
      using seg by blast
    show "fst (uacpi_eval_typed E ?r ''_BBN'') \<noteq> UACPI_STATUS_OK \<longrightarrow> bus (address ?c) = 0"
      using bbn by blast
  qed
qed

lemma ex_env_no_methods_calloc:
  "uacpi_kernel_calloc (ex_env\<lparr>uacpi_eval_typed := \<lambda>n m. (UACPI_STATUS_NOT_FOUND, ex_object UACPI_OBJECT_INTEGER 0x77)\<rparr>)
     ex_state \<noteq> 0"
  by (simp add: ex_env_def)

theorem pci_attach_eval_failures_not_fatal_witness:
  "\<exists>s' c. pci_region_attach
            (ex_env\<lparr>uacpi_eval_typed := \<lambda>n m. (UACPI_STATUS_NOT_FOUND, ex_object UACPI_OBJECT_INTEGER 0x77)\<rparr>)
            \<lparr>region_node = ex_reg, out_region_context = 0\<rparr> ex_state =
            Some (UACPI_STATUS_OK, \<lparr>region_node = ex_reg, out_region_context = 0x2000\<rparr>, s') \<and>
          heap s' 0x2000 = Some (Pci_ctx c) \<and>
          device (address c) = 0 \<and> function_f (address c) = 0 \<and>
          segment (address c) = 0 \<and> bus (address c) = 0"
proof -
  let ?E = "ex_env\<lparr>uacpi_eval_typed := \<lambda>n m. (UACPI_STATUS_NOT_FOUND, ex_object UACPI_OBJECT_INTEGER 0x77)\<rparr>"
  from pci_attach_eval_failures_not_fatal
         [OF ex_env_no_methods_calloc ex_reg_object ex_reg_parent ex_reg_device]
  obtain s' c where
    att: "pci_region_attach ?E \<lparr>region_node = ex_reg, out_region_context = 0\<rparr> ex_state =
            Some (UACPI_STATUS_OK,
                  \<lparr>region_node = ex_reg, out_region_context = 0\<rparr>
                    \<lparr>out_region_context := uacpi_kernel_calloc ?E ex_state\<rparr>, s')"
    and live: "heap s' (uacpi_kernel_calloc ?E ex_state) = Some (Pci_ctx c)"
    and adr: "fst (uacpi_eval_typed ?E ex_dev0 ''_ADR'') \<noteq> UACPI_STATUS_OK \<longrightarrow>
                device (address c) = 0 \<and> function_f (address c) = 0"
    and seg: "fst (uacpi_eval_typed ?E (pci_root_of ?E (region_node \<lparr>region_node = ex_reg, out_region_context = 0\<rparr>)) ''_SEG'')
                \<noteq> UACPI_STATUS_OK \<longrightarrow> segment (address c) = 0"
    and bbn: "fst (uacpi_eval_typed ?E (pci_root_of ?E (region_node \<lparr>region_node = ex_reg, out_region_context = 0\<rparr>)) ''_BBN'')
                \<noteq> UACPI_STATUS_OK \<longrightarrow> bus (address c) = 0"
    by blast
  have c: "uacpi_kernel_calloc ex_env ex_state = 0x2000"
    by (simp add: ex_env_def)
  show ?thesis
  proof (intro exI conjI)
    show "pci_region_attach ?E \<lparr>region_node = ex_reg, out_region_context = 0\<rparr> ex_state =
            Some (UACPI_STATUS_OK, \<lparr>region_node = ex_reg, out_region_context = 0x2000\<rparr>, s')"
      using att by (simp add: c)
    show "heap s' 0x2000 = Some (Pci_ctx c)"
      using live by (simp add: c)
    show "device (address c) = 0" using adr by simp
    show "function_f (address c) = 0" using adr by simp
    show "segment (address c) = 0" using seg by simp
    show "bus (address c) = 0" using bbn by simp
  qed
qed

lemma pci_region_attach_status:
  assumes "object (region_node data) = Some ro"
    and "parent (region_node data) = Some p"
  shows "\<exists>d' s'. pci_region_attach E data s =
           Some (if uacpi_kernel_calloc E s = 0 then UACPI_STATUS_OUT_OF_MEMORY
                 else if find_device (Some (region_node data)) = None then UACPI_STATUS_NOT_FOUND
                 else UACPI_STATUS_OK, d', s')"
proof (cases "uacpi_kernel_calloc E s = 0")
  case True
  then show ?thesis by (simp add: pci_region_attach_no_memory)
next
  case False
  show ?thesis
  proof (cases "find_device (Some (region_node data))")
    case None
    from pci_region_attach_no_device [OF False assms None] show ?thesis
      using False None by auto
  next
    case (Some dev)
    from pci_region_attach_device [OF False assms Some] show ?thesis
      using False Some by auto
  qed
qed

text \<open>
  C10. The PCI attach of a region node returns the out-of-memory status exactly when
  the allocation of the context fails, the not-found status exactly when the context
  is there and no device stands above the region, and success in every other case; it
  returns no other status. With the same allocation, the status is the same whatever
  the evaluations of \<^verbatim>\<open>_HID\<close>, \<^verbatim>\<open>_CID\<close>, \<^verbatim>\<open>_ADR\<close>, \<^verbatim>\<open>_SEG\<close> and \<^verbatim>\<open>_BBN\<close>
  return.
\<close>

theorem pci_attach_failure_modes:
  assumes "object (region_node data) = Some ro"
    and "parent (region_node data) = Some p"
  shows "\<exists>st d' s'. pci_region_attach E data s = Some (st, d', s') \<and>
           (st = UACPI_STATUS_OK \<or> st = UACPI_STATUS_OUT_OF_MEMORY \<or> st = UACPI_STATUS_NOT_FOUND) \<and>
           (st = UACPI_STATUS_OUT_OF_MEMORY \<longleftrightarrow> uacpi_kernel_calloc E s = 0) \<and>
           (st = UACPI_STATUS_NOT_FOUND \<longleftrightarrow>
              uacpi_kernel_calloc E s \<noteq> 0 \<and> find_device (Some (region_node data)) = None) \<and>
           (st = UACPI_STATUS_OK \<longleftrightarrow>
              uacpi_kernel_calloc E s \<noteq> 0 \<and> find_device (Some (region_node data)) \<noteq> None) \<and>
           (\<forall>E' :: env. uacpi_kernel_calloc E' s = uacpi_kernel_calloc E s \<longrightarrow>
                 map_option fst (pci_region_attach E' data s) = Some st)"
proof -
  let ?st = "\<lambda>E. if uacpi_kernel_calloc E s = 0 then UACPI_STATUS_OUT_OF_MEMORY
                 else if find_device (Some (region_node data)) = None then UACPI_STATUS_NOT_FOUND
                 else UACPI_STATUS_OK"
  from pci_region_attach_status [OF assms, of E s]
  obtain d' s' where att: "pci_region_attach E data s = Some (?st E, d', s')"
    by blast
  have other: "map_option fst (pci_region_attach E' data s) = Some (?st E)"
    if "uacpi_kernel_calloc E' s = uacpi_kernel_calloc E s" for E' :: env
  proof -
    from pci_region_attach_status [OF assms, of E' s]
    obtain d'' s'' where "pci_region_attach E' data s = Some (?st E', d'', s'')"
      by blast
    then show ?thesis using that by simp
  qed
  show ?thesis
  proof (intro exI conjI allI impI)
    show "pci_region_attach E data s = Some (?st E, d', s')" by (fact att)
    show "?st E = UACPI_STATUS_OK \<or> ?st E = UACPI_STATUS_OUT_OF_MEMORY \<or> ?st E = UACPI_STATUS_NOT_FOUND"
      by simp
    show "(?st E = UACPI_STATUS_OUT_OF_MEMORY) = (uacpi_kernel_calloc E s = 0)"
      by simp
    show "(?st E = UACPI_STATUS_NOT_FOUND) =
            (uacpi_kernel_calloc E s \<noteq> 0 \<and> find_device (Some (region_node data)) = None)"
      by simp
    show "(?st E = UACPI_STATUS_OK) =
            (uacpi_kernel_calloc E s \<noteq> 0 \<and> find_device (Some (region_node data)) \<noteq> None)"
      by simp
    fix E' :: env
    assume "uacpi_kernel_calloc E' s = uacpi_kernel_calloc E s"
    then show "map_option fst (pci_region_attach E' data s) = Some (?st E)"
      by (rule other)
  qed
qed

lemma ex_reg_no_device_object:
  "object (region_node \<lparr>region_node = ex_reg_no_device, out_region_context = oc\<rparr>) =
     Some (ex_object UACPI_OBJECT_OPERATION_REGION 0)"
  by (simp add: ex_reg_no_device_def)

lemma ex_reg_no_device_parent:
  "parent (region_node \<lparr>region_node = ex_reg_no_device, out_region_context = oc\<rparr>) = Some ex_root"
  by (simp add: ex_reg_no_device_def)

lemma ex_reg_no_device_device:
  "find_device (Some (region_node \<lparr>region_node = ex_reg_no_device, out_region_context = oc\<rparr>)) = None"
  by (simp add: ex_reg_no_device_def ex_root_def is_device_def ex_object_def)

theorem pci_attach_failure_modes_witness:
  "map_option fst (pci_region_attach ex_env \<lparr>region_node = ex_reg, out_region_context = 0\<rparr> ex_state) =
     Some UACPI_STATUS_OK \<and>
   map_option fst (pci_region_attach (ex_env\<lparr>uacpi_kernel_calloc := \<lambda>s. 0\<rparr>)
                     \<lparr>region_node = ex_reg, out_region_context = 0\<rparr> ex_state) =
     Some UACPI_STATUS_OUT_OF_MEMORY \<and>
   map_option fst (pci_region_attach ex_env \<lparr>region_node = ex_reg_no_device, out_region_context = 0\<rparr> ex_state) =
     Some UACPI_STATUS_NOT_FOUND \<and>
   map_option fst (pci_region_attach
                     (ex_env\<lparr>uacpi_eval_typed := \<lambda>n m. (UACPI_STATUS_NOT_FOUND, ex_object UACPI_OBJECT_INTEGER 0x77),
                             uacpi_eval_hid := \<lambda>n. (UACPI_STATUS_NOT_FOUND, []),
                             uacpi_eval_cid := \<lambda>n. (UACPI_STATUS_OTHER 3, [])\<rparr>)
                     \<lparr>region_node = ex_reg, out_region_context = 0\<rparr> ex_state) =
     Some UACPI_STATUS_OK"
proof -
  let ?E0 = "ex_env\<lparr>uacpi_kernel_calloc := \<lambda>s. 0\<rparr>"
  let ?E1 = "ex_env\<lparr>uacpi_eval_typed := \<lambda>n m. (UACPI_STATUS_NOT_FOUND, ex_object UACPI_OBJECT_INTEGER 0x77),
                     uacpi_eval_hid := \<lambda>n. (UACPI_STATUS_NOT_FOUND, []),
                     uacpi_eval_cid := \<lambda>n. (UACPI_STATUS_OTHER 3, [])\<rparr>"
  have c: "uacpi_kernel_calloc ex_env ex_state \<noteq> 0" by (rule ex_calloc)
  have c0: "uacpi_kernel_calloc ?E0 ex_state = 0" by simp
  have c1: "uacpi_kernel_calloc ?E1 ex_state = uacpi_kernel_calloc ex_env ex_state" by simp
  from pci_attach_failure_modes [OF ex_reg_object ex_reg_parent, of ex_env 0 ex_state]
  obtain st where a: "map_option fst (pci_region_attach ex_env \<lparr>region_node = ex_reg, out_region_context = 0\<rparr> ex_state) = Some st"
    and ok: "(st = UACPI_STATUS_OK) =
       (uacpi_kernel_calloc ex_env ex_state \<noteq> 0 \<and>
        find_device (Some (region_node \<lparr>region_node = ex_reg, out_region_context = 0\<rparr>)) \<noteq> None)"
    and all: "\<forall>E' :: env. uacpi_kernel_calloc E' ex_state = uacpi_kernel_calloc ex_env ex_state \<longrightarrow>
                 map_option fst (pci_region_attach E' \<lparr>region_node = ex_reg, out_region_context = 0\<rparr> ex_state) = Some st"
    by auto
  have fd: "find_device (Some ex_reg) = Some ex_dev0"
    using ex_reg_device [of 0] by simp
  have st: "st = UACPI_STATUS_OK"
    using ok c by (simp add: fd)
  from pci_attach_failure_modes [OF ex_reg_object ex_reg_parent, of ?E0 0 ex_state]
  obtain st0 where a0: "map_option fst (pci_region_attach ?E0 \<lparr>region_node = ex_reg, out_region_context = 0\<rparr> ex_state) = Some st0"
    and oom: "(st0 = UACPI_STATUS_OUT_OF_MEMORY) = (uacpi_kernel_calloc ?E0 ex_state = 0)"
    by auto
  have st0: "st0 = UACPI_STATUS_OUT_OF_MEMORY"
    using oom c0 by simp
  from pci_attach_failure_modes [OF ex_reg_no_device_object ex_reg_no_device_parent, of ex_env 0 ex_state]
  obtain st2 where a2: "map_option fst (pci_region_attach ex_env \<lparr>region_node = ex_reg_no_device, out_region_context = 0\<rparr> ex_state) = Some st2"
    and nf: "(st2 = UACPI_STATUS_NOT_FOUND) =
       (uacpi_kernel_calloc ex_env ex_state \<noteq> 0 \<and>
        find_device (Some (region_node \<lparr>region_node = ex_reg_no_device, out_region_context = 0\<rparr>)) = None)"
    by auto
  have fd2: "find_device (Some ex_reg_no_device) = None"
    using ex_reg_no_device_device [of 0] by simp
  have st2: "st2 = UACPI_STATUS_NOT_FOUND"
    using nf c by (simp add: fd2)
  have a1: "map_option fst (pci_region_attach ?E1 \<lparr>region_node = ex_reg, out_region_context = 0\<rparr> ex_state) = Some st"
    by (rule all [rule_format, OF c1])
  show ?thesis
    using a a0 a1 a2 unfolding st st0 st2 by (intro conjI)
qed

subsection \<open>Failures of an attach\<close>

lemma memory_region_attach_map_failed:
  assumes "uacpi_kernel_alloc E s \<noteq> 0"
    and "object (region_node data) = Some ro"
    and "uacpi_kernel_map E (opr_offset (op_region ro)) (opr_length (op_region ro)) = 0"
  shows "memory_region_attach E data s =
           Some (UACPI_STATUS_MAPPING_FAILED, data,
                 s\<lparr>heap := (heap s)(uacpi_kernel_alloc E s := None),
                   calls := calls s @
                     [K_alloc (uacpi_kernel_alloc E s),
                      K_map (opr_offset (op_region ro)) (opr_length (op_region ro)),
                      K_trace_region_error (Some (region_node data)) ''unable to map''
                        UACPI_STATUS_MAPPING_FAILED,
                      K_free (uacpi_kernel_alloc E s)]\<rparr>)"
  using assms
  by (simp add: memory_region_attach_def Let_def log_call_def store_ctx_def kernel_free_def)

lemma io_region_attach_map_failed:
  assumes "uacpi_kernel_alloc E s \<noteq> 0"
    and "object (region_node data) = Some ro"
    and "uacpi_kernel_io_map E (opr_offset (op_region ro)) (opr_length (op_region ro)) = (ret, h)"
    and "ret \<noteq> UACPI_STATUS_OK"
  shows "io_region_attach E data s =
           Some (ret, data,
                 s\<lparr>heap := (heap s)(uacpi_kernel_alloc E s := None),
                   calls := calls s @
                     [K_alloc (uacpi_kernel_alloc E s),
                      K_io_map (opr_offset (op_region ro)) (opr_length (op_region ro)),
                      K_trace_region_error (Some (region_node data)) ''unable to map an IO'' ret,
                      K_free (uacpi_kernel_alloc E s)]\<rparr>)"
  using assms
  by (simp add: io_region_attach_def Let_def log_call_def store_ctx_def kernel_free_def)

lemma pci_region_attach_no_device_state:
  assumes "uacpi_kernel_calloc E s \<noteq> 0"
    and "object (region_node data) = Some ro"
    and "parent (region_node data) = Some p"
    and "find_device (Some (region_node data)) = None"
  shows "pci_region_attach E data s =
           Some (UACPI_STATUS_NOT_FOUND, data,
                 s\<lparr>heap := (heap s)(uacpi_kernel_calloc E s := None),
                   calls := calls s @
                     [K_calloc (uacpi_kernel_calloc E s),
                      (case find (is_node_pci_root E) (ancestors_below_root p) of
                      None \<Rightarrow> K_trace_region_error (Some (region_node data))
                                ''unable to find PCI root controlling'' UACPI_STATUS_NOT_FOUND
                    | Some r \<Rightarrow> K_trace ''found a PCI root node''),
                      K_trace_region_error None ''unable to find device responsible for''
                        UACPI_STATUS_NOT_FOUND,
                      K_free (uacpi_kernel_calloc E s)]\<rparr>)"
  using assms
  by (simp add: pci_region_attach_def Let_def find_pci_root_eq
      log_call_def store_ctx_def kernel_free_def)

text \<open>
  C5. A failing attach leaves nothing behind. When the platform map of the memory
  attach returns the null pointer, the context allocated is freed and the
  mapping-failed status is returned; when the PCI attach finds no device above the
  region, the context allocated is freed and the not-found status is returned; when the
  I/O map of the I/O attach fails, the context allocated is freed and the status of the
  platform is returned as it is. In each case the data of the attach come back
  unchanged (the out slot is not written), the context is no longer live and the last
  call is the one that frees it.
\<close>

theorem attach_failure_releases_context:
  "(uacpi_kernel_alloc E s \<noteq> 0 \<and> object (region_node data) = Some ro \<and>
    uacpi_kernel_map E (opr_offset (op_region ro)) (opr_length (op_region ro)) = 0 \<longrightarrow>
      memory_region_attach E data s =
        Some (UACPI_STATUS_MAPPING_FAILED, data,
              s\<lparr>heap := (heap s)(uacpi_kernel_alloc E s := None),
                calls := calls s @
                  [K_alloc (uacpi_kernel_alloc E s),
                   K_map (opr_offset (op_region ro)) (opr_length (op_region ro)),
                   K_trace_region_error (Some (region_node data)) ''unable to map''
                     UACPI_STATUS_MAPPING_FAILED,
                   K_free (uacpi_kernel_alloc E s)]\<rparr>)) \<and>
   (uacpi_kernel_calloc E s \<noteq> 0 \<and> object (region_node data) = Some ro \<and>
    parent (region_node data) = Some p \<and> find_device (Some (region_node data)) = None \<longrightarrow>
      (pci_region_attach E data s =
        Some (UACPI_STATUS_NOT_FOUND, data,
              s\<lparr>heap := (heap s)(uacpi_kernel_calloc E s := None),
                calls := calls s @
                  [K_calloc (uacpi_kernel_calloc E s),
                      (case find (is_node_pci_root E) (ancestors_below_root p) of
                      None \<Rightarrow> K_trace_region_error (Some (region_node data))
                                ''unable to find PCI root controlling'' UACPI_STATUS_NOT_FOUND
                    | Some r \<Rightarrow> K_trace ''found a PCI root node''),
                   K_trace_region_error None ''unable to find device responsible for''
                     UACPI_STATUS_NOT_FOUND,
                   K_free (uacpi_kernel_calloc E s)]\<rparr>))) \<and>
   (uacpi_kernel_alloc E s \<noteq> 0 \<and> object (region_node data) = Some ro \<and>
    uacpi_kernel_io_map E (opr_offset (op_region ro)) (opr_length (op_region ro)) = (ret, h) \<and>
    ret \<noteq> UACPI_STATUS_OK \<longrightarrow>
      io_region_attach E data s =
        Some (ret, data,
              s\<lparr>heap := (heap s)(uacpi_kernel_alloc E s := None),
                calls := calls s @
                  [K_alloc (uacpi_kernel_alloc E s),
                   K_io_map (opr_offset (op_region ro)) (opr_length (op_region ro)),
                   K_trace_region_error (Some (region_node data)) ''unable to map an IO'' ret,
                   K_free (uacpi_kernel_alloc E s)]\<rparr>))"
  using memory_region_attach_map_failed [of E s data ro]
    pci_region_attach_no_device_state [of E s data ro p]
    io_region_attach_map_failed [of E s data ro ret h]
  by blast

theorem attach_failure_releases_context_witness:
  "memory_region_attach (ex_env\<lparr>uacpi_kernel_map := \<lambda>p sz. 0\<rparr>)
     \<lparr>region_node = ex_reg, out_region_context = 0\<rparr> ex_state =
     Some (UACPI_STATUS_MAPPING_FAILED, \<lparr>region_node = ex_reg, out_region_context = 0\<rparr>,
           \<lparr>heap = Map.empty, mem = (\<lambda>a. 0),
            calls = [K_alloc 0x1000, K_map 0x10000 0x100,
                     K_trace_region_error (Some ex_reg) ''unable to map'' UACPI_STATUS_MAPPING_FAILED,
                     K_free 0x1000]\<rparr>) \<and>
   pci_region_attach ex_env \<lparr>region_node = ex_reg_no_device, out_region_context = 0\<rparr> ex_state =
     Some (UACPI_STATUS_NOT_FOUND, \<lparr>region_node = ex_reg_no_device, out_region_context = 0\<rparr>,
           \<lparr>heap = Map.empty, mem = (\<lambda>a. 0),
            calls = [K_calloc 0x2000,
                     K_trace_region_error (Some ex_reg_no_device) ''unable to find PCI root controlling''
                       UACPI_STATUS_NOT_FOUND,
                     K_trace_region_error None ''unable to find device responsible for''
                       UACPI_STATUS_NOT_FOUND,
                     K_free 0x2000]\<rparr>) \<and>
   io_region_attach (ex_env\<lparr>uacpi_kernel_io_map := \<lambda>b l. (UACPI_STATUS_OTHER 5, 0)\<rparr>)
     \<lparr>region_node = ex_reg, out_region_context = 0\<rparr> ex_state =
     Some (UACPI_STATUS_OTHER 5, \<lparr>region_node = ex_reg, out_region_context = 0\<rparr>,
           \<lparr>heap = Map.empty, mem = (\<lambda>a. 0),
            calls = [K_alloc 0x1000, K_io_map 0x10000 0x100,
                     K_trace_region_error (Some ex_reg) ''unable to map an IO'' (UACPI_STATUS_OTHER 5),
                     K_free 0x1000]\<rparr>)"
proof -
  let ?ro = "ex_object UACPI_OBJECT_OPERATION_REGION 0"
  have a: "uacpi_kernel_alloc ex_env ex_state = 0x1000" "uacpi_kernel_calloc ex_env ex_state = 0x2000"
    by (simp_all add: ex_env_def)
  have ro: "opr_offset (op_region ?ro) = 0x10000" "opr_length (op_region ?ro) = 0x100"
    by (simp_all add: ex_object_def)
  have st: "heap ex_state = Map.empty" "calls ex_state = []" "mem ex_state = (\<lambda>a. 0)"
    by (simp_all add: ex_state_def)
  have upd: "ex_state\<lparr>heap := h, calls := c\<rparr> = \<lparr>heap = h, mem = (\<lambda>a. 0), calls = c\<rparr>" for h c
    by (simp add: ex_state_def)
  have m: "memory_region_attach (ex_env\<lparr>uacpi_kernel_map := \<lambda>p sz. 0\<rparr>)
     \<lparr>region_node = ex_reg, out_region_context = 0\<rparr> ex_state =
     Some (UACPI_STATUS_MAPPING_FAILED, \<lparr>region_node = ex_reg, out_region_context = 0\<rparr>,
           \<lparr>heap = Map.empty, mem = (\<lambda>a. 0),
            calls = [K_alloc 0x1000, K_map 0x10000 0x100,
                     K_trace_region_error (Some ex_reg) ''unable to map'' UACPI_STATUS_MAPPING_FAILED,
                     K_free 0x1000]\<rparr>)"
    using attach_failure_releases_context
            [where E = "ex_env\<lparr>uacpi_kernel_map := \<lambda>p sz. 0\<rparr>" and s = ex_state
               and data = "\<lparr>region_node = ex_reg, out_region_context = 0\<rparr>" and ro = ?ro,
             THEN conjunct1]
    by (simp add: a ro st upd ex_reg_object [simplified])
  have nd: "find (is_node_pci_root ex_env) (ancestors_below_root ex_root) = None"
    by (simp add: ex_root_def)
  have p: "pci_region_attach ex_env \<lparr>region_node = ex_reg_no_device, out_region_context = 0\<rparr> ex_state =
     Some (UACPI_STATUS_NOT_FOUND, \<lparr>region_node = ex_reg_no_device, out_region_context = 0\<rparr>,
           \<lparr>heap = Map.empty, mem = (\<lambda>a. 0),
            calls = [K_calloc 0x2000,
                     K_trace_region_error (Some ex_reg_no_device) ''unable to find PCI root controlling''
                       UACPI_STATUS_NOT_FOUND,
                     K_trace_region_error None ''unable to find device responsible for''
                       UACPI_STATUS_NOT_FOUND,
                     K_free 0x2000]\<rparr>)"
    using attach_failure_releases_context
            [where E = ex_env and s = ex_state
               and data = "\<lparr>region_node = ex_reg_no_device, out_region_context = 0\<rparr>" and ro = ?ro
               and p = ex_root,
             THEN conjunct2, THEN conjunct1]
    by (simp add: a st upd nd ex_reg_no_device_object [simplified] ex_reg_no_device_parent [simplified]
        ex_reg_no_device_device [simplified])
  have i: "io_region_attach (ex_env\<lparr>uacpi_kernel_io_map := \<lambda>b l. (UACPI_STATUS_OTHER 5, 0)\<rparr>)
     \<lparr>region_node = ex_reg, out_region_context = 0\<rparr> ex_state =
     Some (UACPI_STATUS_OTHER 5, \<lparr>region_node = ex_reg, out_region_context = 0\<rparr>,
           \<lparr>heap = Map.empty, mem = (\<lambda>a. 0),
            calls = [K_alloc 0x1000, K_io_map 0x10000 0x100,
                     K_trace_region_error (Some ex_reg) ''unable to map an IO'' (UACPI_STATUS_OTHER 5),
                     K_free 0x1000]\<rparr>)"
    using attach_failure_releases_context
            [where E = "ex_env\<lparr>uacpi_kernel_io_map := \<lambda>b l. (UACPI_STATUS_OTHER 5, 0)\<rparr>" and s = ex_state
               and data = "\<lparr>region_node = ex_reg, out_region_context = 0\<rparr>" and ro = ?ro
               and ret = "UACPI_STATUS_OTHER 5" and h = 0,
             THEN conjunct2, THEN conjunct2]
    by (simp add: a ro st upd ex_reg_object [simplified])
  from m p i show ?thesis by (intro conjI)
qed

subsection \<open>The search for the PCI root\<close>

text \<open>
  C6. The search for the PCI root starts at the parent of the region node and goes up
  towards the namespace root; it returns the first of these ancestors that is a PCI root
  bridge, a node being one when its \<^verbatim>\<open>_HID\<close> evaluates to a root bridge identifier or,
  failing that, when an entry of its \<^verbatim>\<open>_CID\<close> list is one. When no ancestor below the
  namespace root is a root bridge, the region node itself is returned, and the attach
  goes on: with its context allocated and the controlling device found it returns
  success, \<^verbatim>\<open>_SEG\<close> and \<^verbatim>\<open>_BBN\<close> being evaluated on the region node.
\<close>

theorem find_pci_root_first_match:
  assumes "parent node = Some p"
  shows "(\<exists>s'. find_pci_root E node s =
             Some ((case find (is_node_pci_root E) (ancestors_below_root p) of
                      None \<Rightarrow> node
                    | Some r \<Rightarrow> r), s')) \<and>
         (\<forall>n. is_node_pci_root E n \<longleftrightarrow>
            (fst (uacpi_eval_hid E n) = UACPI_STATUS_OK \<and>
               uacpi_is_pci_root_bridge E (snd (uacpi_eval_hid E n))) \<or>
            (fst (uacpi_eval_cid E n) = UACPI_STATUS_OK \<and>
               (\<exists>i \<in> set (snd (uacpi_eval_cid E n)). uacpi_is_pci_root_bridge E i))) \<and>
         (find (is_node_pci_root E) (ancestors_below_root p) = None \<and>
          uacpi_kernel_calloc E s \<noteq> 0 \<and> object node = Some ro \<and>
          find_device (Some node) = Some dev \<longrightarrow>
            (\<exists>s'. pci_region_attach E \<lparr>region_node = node, out_region_context = oc\<rparr> s =
                    Some (UACPI_STATUS_OK,
                          \<lparr>region_node = node, out_region_context = uacpi_kernel_calloc E s\<rparr>, s') \<and>
                  heap s' (uacpi_kernel_calloc E s) =
                    Some (Pci_ctx \<lparr>address = resolved_address E node dev\<rparr>)))"
proof (intro conjI allI impI)
  show "\<exists>s'. find_pci_root E node s =
             Some ((case find (is_node_pci_root E) (ancestors_below_root p) of
                      None \<Rightarrow> node
                    | Some r \<Rightarrow> r), s')"
    using assms by (simp add: find_pci_root_eq pci_root_of_def)
next
  fix n
  show "is_node_pci_root E n \<longleftrightarrow>
            (fst (uacpi_eval_hid E n) = UACPI_STATUS_OK \<and>
               uacpi_is_pci_root_bridge E (snd (uacpi_eval_hid E n))) \<or>
            (fst (uacpi_eval_cid E n) = UACPI_STATUS_OK \<and>
               (\<exists>i \<in> set (snd (uacpi_eval_cid E n)). uacpi_is_pci_root_bridge E i))"
    by (rule is_node_pci_root_iff)
next
  assume h: "find (is_node_pci_root E) (ancestors_below_root p) = None \<and>
          uacpi_kernel_calloc E s \<noteq> 0 \<and> object node = Some ro \<and>
          find_device (Some node) = Some dev"
  let ?d = "\<lparr>region_node = node, out_region_context = oc\<rparr>"
  have root: "pci_root_of E (region_node ?d) = node"
    using assms h by (simp add: pci_root_of_def)
  have c: "uacpi_kernel_calloc E s \<noteq> 0" using h by simp
  have ob: "object (region_node ?d) = Some ro" using h by simp
  have pa: "parent (region_node ?d) = Some p" using assms by simp
  have dv: "find_device (Some (region_node ?d)) = Some dev" using h by simp
  from pci_region_attach_device [OF c ob pa dv]
  obtain s' where att: "pci_region_attach E ?d s =
        Some (UACPI_STATUS_OK, ?d\<lparr>out_region_context := uacpi_kernel_calloc E s\<rparr>, s')"
    and hp: "heap s' = (heap s)(uacpi_kernel_calloc E s \<mapsto>
                      Pci_ctx \<lparr>address = resolved_address E (pci_root_of E (region_node ?d)) dev\<rparr>)"
    by blast
  have live: "heap s' (uacpi_kernel_calloc E s) = Some (Pci_ctx \<lparr>address = resolved_address E node dev\<rparr>)"
    unfolding hp root by simp
  show "\<exists>s'. pci_region_attach E ?d s =
                    Some (UACPI_STATUS_OK,
                          \<lparr>region_node = node, out_region_context = uacpi_kernel_calloc E s\<rparr>, s') \<and>
                  heap s' (uacpi_kernel_calloc E s) =
                    Some (Pci_ctx \<lparr>address = resolved_address E node dev\<rparr>)"
    using att live by simp
qed

theorem find_pci_root_first_match_witness:
  "(\<exists>s'. find_pci_root ex_env ex_reg ex_state = Some (ex_pci0, s')) \<and>
   is_node_pci_root ex_env ex_pci0 \<and>
   (\<exists>s'. find_pci_root (ex_env\<lparr>uacpi_eval_hid := \<lambda>n. (UACPI_STATUS_NOT_FOUND, [])\<rparr>) ex_reg ex_state =
           Some (ex_reg, s')) \<and>
   (\<exists>s'. pci_region_attach (ex_env\<lparr>uacpi_eval_hid := \<lambda>n. (UACPI_STATUS_NOT_FOUND, [])\<rparr>)
            \<lparr>region_node = ex_reg, out_region_context = 0\<rparr> ex_state =
            Some (UACPI_STATUS_OK, \<lparr>region_node = ex_reg, out_region_context = 0x2000\<rparr>, s') \<and>
          heap s' 0x2000 =
            Some (Pci_ctx \<lparr>address = \<lparr>segment = 0, bus = 0, device = 0x1F, function_f = 3\<rparr>\<rparr>))"
proof -
  let ?E = "ex_env\<lparr>uacpi_eval_hid := \<lambda>n. (UACPI_STATUS_NOT_FOUND, [])\<rparr>"
  have par: "parent ex_reg = Some ex_dev0"
    by (simp add: ex_reg_def)
  have found: "find (is_node_pci_root ex_env) (ancestors_below_root ex_dev0) = Some ex_pci0"
    by (simp add: ex_dev0_def ex_pci0_def ex_sb_def ex_root_def is_node_pci_root_def ex_env_def)
  have none: "find (is_node_pci_root ?E) (ancestors_below_root ex_dev0) = None"
    by (simp add: ex_dev0_def ex_pci0_def ex_sb_def ex_root_def is_node_pci_root_def ex_env_def)
  have hid: "fst (uacpi_eval_hid ex_env ex_pci0) = UACPI_STATUS_OK \<and>
             uacpi_is_pci_root_bridge ex_env (snd (uacpi_eval_hid ex_env ex_pci0))"
    by (simp add: ex_env_def ex_pci0_def)
  have c: "uacpi_kernel_calloc ?E ex_state \<noteq> 0" "uacpi_kernel_calloc ?E ex_state = 0x2000"
    by (simp_all add: ex_env_def)
  have ob: "object ex_reg = Some (ex_object UACPI_OBJECT_OPERATION_REGION 0)"
    by (simp add: ex_reg_def)
  have dv: "find_device (Some ex_reg) = Some ex_dev0"
    using ex_reg_device [of 0] by simp
  have adr: "resolved_address ?E ex_reg ex_dev0 = \<lparr>segment = 0, bus = 0, device = 0x1F, function_f = 3\<rparr>"
    by (simp add: resolved_address_def set_adr_def set_seg_def set_bbn_def zero_pci_address_def
        ex_env_def ex_eval_typed_def ex_reg_def ex_dev0_def ex_object_def)
  note t1 = find_pci_root_first_match [OF par, of ex_env ex_state]
  note t2 = find_pci_root_first_match
              [OF par, of ?E ex_state "ex_object UACPI_OBJECT_OPERATION_REGION 0" ex_dev0 0]
  have a: "\<exists>s'. find_pci_root ex_env ex_reg ex_state = Some (ex_pci0, s')"
    using t1 [THEN conjunct1] by (simp add: found)
  have b: "is_node_pci_root ex_env ex_pci0"
    using t1 [THEN conjunct2, THEN conjunct1, rule_format, of ex_pci0] hid by blast
  have d: "\<exists>s'. find_pci_root ?E ex_reg ex_state = Some (ex_reg, s')"
    using t2 [THEN conjunct1] by (simp add: none)
  have e: "\<exists>s'. pci_region_attach ?E \<lparr>region_node = ex_reg, out_region_context = 0\<rparr> ex_state =
            Some (UACPI_STATUS_OK, \<lparr>region_node = ex_reg, out_region_context = 0x2000\<rparr>, s') \<and>
          heap s' 0x2000 =
            Some (Pci_ctx \<lparr>address = \<lparr>segment = 0, bus = 0, device = 0x1F, function_f = 3\<rparr>\<rparr>)"
    using t2 [THEN conjunct2, THEN conjunct2, rule_format, OF conjI [OF none conjI [OF c(1) conjI [OF ob dv]]]]
    unfolding c(2) adr .
  from a b d e show ?thesis by (intro conjI)
qed

end
